theory Spec2Isabelle
  imports Complex_Main "HOL-Library.Monad_Syntax"
begin

section \<open>The Feature Engine of the stretch coach (src/features/FeatureEngine.ts)\<close>

text \<open>
  The engine turns one pose (21 named keypoints with a position and a confidence) into a
  Features record: joint angles, body-line angle, reference positions, velocities, a
  stability verdict and a visibility verdict. Its only state is the previously returned
  Features, the configuration and a copy of the smoothing factor.

  Conventions of the embedding.
  \<^item> A JavaScript \<open>number\<close> is a \<^typ>\<open>real\<close>: the arithmetic is the exact one, so
    rounding, infinities and NaN are outside the model. \<open>Math.sqrt\<close>, \<open>Math.acos\<close>
    and \<open>Math.PI\<close> are \<^const>\<open>sqrt\<close>, \<^const>\<open>arccos\<close> and \<^const>\<open>pi\<close>.
  \<^item> The object \<open>Record<KeypointName, Keypoint>\<close> is a map from names to keypoints. Its
    static type promises all 21 keys; at run time reading an absent key yields
    \<open>undefined\<close> and reading a property of \<open>undefined\<close> throws a TypeError. A thrown
    exception is the value \<^const>\<open>None\<close> of the helpers; \<open>calculateFeatures\<close> catches it.
  \<^item> \<open>Date.now()\<close> is a parameter of the function that reads it.
\<close>

subsection \<open>Data model (src/types/index.ts)\<close>

datatype KeypointName =
    nose | left_eye | right_eye | left_ear | right_ear
  | left_shoulder | right_shoulder | left_elbow | right_elbow | left_wrist | right_wrist
  | left_hip | right_hip
  | left_knee | right_knee | left_ankle | right_ankle
  | left_heel | right_heel | left_toe | right_toe

datatype VisibilityClass = visible | occluded | not_visible

record Keypoint =
  kp_x :: real
  kp_y :: real
  confidence :: real
  kp_visibility :: "VisibilityClass option"

type_synonym Keypoints = "KeypointName \<rightharpoonup> Keypoint"

record Pose =
  keypoints :: Keypoints
  pose_timestamp :: real
  pose_frameId :: string
  visibilityScore :: real

record Angles =
  leftHip :: real
  rightHip :: real
  leftKnee :: real
  rightKnee :: real
  leftShoulder :: real
  rightShoulder :: real
  leftElbow :: real
  rightElbow :: real
  neck :: real

record Positions =
  hipHeight :: real
  shoulderHeight :: real
  headHeight :: real
  leftAnkleHeight :: real
  rightAnkleHeight :: real

record Velocity =
  vel_bodyLineAngle :: real
  vel_hipHeight :: real
  vel_shoulderHeight :: real

record Stability =
  isStable :: bool
  stabilityScore :: real
  motionGate :: bool

record CriticalPoints =
  shoulders :: real
  hips :: real
  ankles :: real

record Visibility =
  overall :: real
  criticalPoints :: CriticalPoints
  hasMinimumVisibility :: bool

record Features =
  bodyLineAngle :: real
  bodyLineConfidence :: real
  angles :: Angles
  positions :: Positions
  velocity :: Velocity
  stability :: Stability
  visibility :: Visibility
  timestamp :: real
  frameId :: string

datatype AngleMethod = Atan2 | Acos | Asin

record FeatureConfig =
  smoothingFactor :: real
  stabilityWindowMs :: real
  motionThreshold :: real
  angleCalculationMethod :: AngleMethod

text \<open>\<open>Partial<FeatureConfig>\<close>: every key may be absent.\<close>

record PartialFeatureConfig =
  p_smoothingFactor :: "real option"
  p_stabilityWindowMs :: "real option"
  p_motionThreshold :: "real option"
  p_angleCalculationMethod :: "AngleMethod option"

text \<open>The private fields of the class \<open>FeatureEngine\<close>.\<close>

record FeatureEngine =
  config :: FeatureConfig
  previousFeatures :: "Features option"
  this_smoothingFactor :: real

text \<open>
  \<open>AppError\<close> as built in the catch branch. Its message quotes the text of the caught
  error, which the JavaScript engine chooses; the model keeps the fixed fields.
\<close>

record AppError =
  err_type :: string
  err_timestamp :: real
  recoverable :: bool

text \<open>\<open>ServiceResponse<Features>\<close>: \<open>success: true\<close> with data, or \<open>success: false\<close>
  with an error; each with the time the response was built.\<close>

datatype ServiceResponse = Success Features real | Failure AppError real

datatype Side = Left | Right

text \<open>The keys \<open>`${side}_hip`\<close>, \<open>`${side}_knee`\<close>, ... of the angle helpers.\<close>

fun side_hip :: "Side \<Rightarrow> KeypointName" where
  "side_hip Left = left_hip" | "side_hip Right = right_hip"

fun side_knee :: "Side \<Rightarrow> KeypointName" where
  "side_knee Left = left_knee" | "side_knee Right = right_knee"

fun side_ankle :: "Side \<Rightarrow> KeypointName" where
  "side_ankle Left = left_ankle" | "side_ankle Right = right_ankle"

fun side_shoulder :: "Side \<Rightarrow> KeypointName" where
  "side_shoulder Left = left_shoulder" | "side_shoulder Right = right_shoulder"

fun side_elbow :: "Side \<Rightarrow> KeypointName" where
  "side_elbow Left = left_elbow" | "side_elbow Right = right_elbow"

fun side_wrist :: "Side \<Rightarrow> KeypointName" where
  "side_wrist Left = left_wrist" | "side_wrist Right = right_wrist"

text \<open>All names of the type \<open>KeypointName\<close>, in the order of its declaration.\<close>

definition allKeypointNames :: "KeypointName list" where
  "allKeypointNames =
    [nose, left_eye, right_eye, left_ear, right_ear,
     left_shoulder, right_shoulder, left_elbow, right_elbow, left_wrist, right_wrist,
     left_hip, right_hip, left_knee, right_knee, left_ankle, right_ankle,
     left_heel, right_heel, left_toe, right_toe]"

text \<open>A keypoint object that has the type the declaration of \<open>Pose\<close> promises: every key
  is present.\<close>

definition wellTyped :: "Keypoints \<Rightarrow> bool" where
  "wellTyped ks = list_all (\<lambda>n. ks n \<noteq> None) allKeypointNames"

subsection \<open>Constructor, configuration, reset\<close>

definition defaultConfig :: FeatureConfig where
  "defaultConfig =
    \<lparr>smoothingFactor = 1/10, stabilityWindowMs = 1000, motionThreshold = 5,
     angleCalculationMethod = Atan2\<rparr>"

text \<open>The object spread \<open>{ ...base, ...partial }\<close>: a key of the partial object wins.\<close>

definition spreadConfig :: "FeatureConfig \<Rightarrow> PartialFeatureConfig \<Rightarrow> FeatureConfig" where
  "spreadConfig base p =
    \<lparr>smoothingFactor = (case p_smoothingFactor p of Some v \<Rightarrow> v | None \<Rightarrow> smoothingFactor base),
     stabilityWindowMs = (case p_stabilityWindowMs p of Some v \<Rightarrow> v | None \<Rightarrow> stabilityWindowMs base),
     motionThreshold = (case p_motionThreshold p of Some v \<Rightarrow> v | None \<Rightarrow> motionThreshold base),
     angleCalculationMethod =
       (case p_angleCalculationMethod p of Some v \<Rightarrow> v | None \<Rightarrow> angleCalculationMethod base)\<rparr>"

definition noConfig :: PartialFeatureConfig where
  "noConfig =
    \<lparr>p_smoothingFactor = None, p_stabilityWindowMs = None, p_motionThreshold = None,
     p_angleCalculationMethod = None\<rparr>"

definition constructor :: "PartialFeatureConfig option \<Rightarrow> FeatureEngine" where
  "constructor cfg =
    (let c = spreadConfig defaultConfig (case cfg of Some p \<Rightarrow> p | None \<Rightarrow> noConfig)
     in \<lparr>config = c, previousFeatures = None, this_smoothingFactor = smoothingFactor c\<rparr>)"

definition updateConfig :: "FeatureEngine \<Rightarrow> PartialFeatureConfig \<Rightarrow> FeatureEngine" where
  "updateConfig this newConfig =
    (let c = spreadConfig (config this) newConfig
     in this\<lparr>config := c, this_smoothingFactor := smoothingFactor c\<rparr>)"

definition getConfig :: "FeatureEngine \<Rightarrow> FeatureConfig" where
  "getConfig this = config this"

definition reset :: "FeatureEngine \<Rightarrow> FeatureEngine" where
  "reset this = this\<lparr>previousFeatures := None\<rparr>"

subsection \<open>Geometry helpers\<close>

text \<open>\<open>keypoints.every(kp => kp.confidence >= 0.6)\<close>: \<open>every\<close> stops at the first
  element that fails the test, and throws when it reaches an \<open>undefined\<close> element.\<close>

fun areKeypointsVisible :: "Keypoint option list \<Rightarrow> bool option" where
  "areKeypointsVisible [] = Some True"
| "areKeypointsVisible (None # kps) = None"
| "areKeypointsVisible (Some kp # kps) =
     (if confidence kp \<ge> 6/10 then areKeypointsVisible kps else Some False)"

definition calculateAngleBetweenVectors :: "real \<times> real \<Rightarrow> real \<times> real \<Rightarrow> real" where
  "calculateAngleBetweenVectors v1 v2 =
    (let dot = fst v1 * fst v2 + snd v1 * snd v2;
         mag1 = sqrt (fst v1 * fst v1 + snd v1 * snd v1);
         mag2 = sqrt (fst v2 * fst v2 + snd v2 * snd v2)
     in if mag1 = 0 \<or> mag2 = 0 then 0
        else let cosAngle = dot / (mag1 * mag2);
                 angle = arccos (max (-1) (min 1 cosAngle))
             in angle * (180 / pi))"

text \<open>\<open>Math.atan2(y, x)\<close> of ECMAScript on the reals: the angle of the point \<open>(x, y)\<close>
  in \<open>(-\<pi>, \<pi>]\<close>, and 0 at the origin.\<close>

definition atan2 :: "real \<Rightarrow> real \<Rightarrow> real" where
  "atan2 y x =
    (if x > 0 then arctan (y / x)
     else if x < 0 \<and> y \<ge> 0 then arctan (y / x) + pi
     else if x < 0 \<and> y < 0 then arctan (y / x) - pi
     else if y > 0 then pi / 2
     else if y < 0 then - (pi / 2)
     else 0)"

text \<open>\<open>alpha * current + (1 - alpha) * previous\<close>\<close>

definition smoothValue :: "real \<Rightarrow> real \<Rightarrow> real \<Rightarrow> real" where
  "smoothValue current previous alpha = alpha * current + (1 - alpha) * previous"

text \<open>\<open>averageY\<close>: \<open>filter\<close> visits every element (and throws on an \<open>undefined\<close> one);
  the mean of the y-coordinates of the elements that pass, 0 when none does.\<close>

definition averageY :: "Keypoint option list \<Rightarrow> real option" where
  "averageY kps = do {
     ks \<leftarrow> those kps;
     let vis = filter (\<lambda>kp. confidence kp \<ge> 6/10) ks;
     if length vis = 0 then Some 0
     else Some (foldl (\<lambda>acc kp. acc + kp_y kp) 0 vis / real (length vis))
   }"

subsection \<open>Joint angles\<close>

definition calculateHipAngle :: "Keypoints \<Rightarrow> Side \<Rightarrow> real option" where
  "calculateHipAngle ks side =
    (let hip = ks (side_hip side); knee = ks (side_knee side); ankle = ks (side_ankle side)
     in do {
       ok \<leftarrow> areKeypointsVisible [hip, knee, ankle];
       if \<not> ok then Some 0
       else do {
         h \<leftarrow> hip; k \<leftarrow> knee; a \<leftarrow> ankle;
         Some (calculateAngleBetweenVectors
                 (kp_x h - kp_x k, kp_y h - kp_y k)
                 (kp_x a - kp_x k, kp_y a - kp_y k))
       }
     })"

definition calculateKneeAngle :: "Keypoints \<Rightarrow> Side \<Rightarrow> real option" where
  "calculateKneeAngle ks side =
    (let hip = ks (side_hip side); knee = ks (side_knee side); ankle = ks (side_ankle side)
     in do {
       ok \<leftarrow> areKeypointsVisible [hip, knee, ankle];
       if \<not> ok then Some 0
       else do {
         h \<leftarrow> hip; k \<leftarrow> knee; a \<leftarrow> ankle;
         Some (calculateAngleBetweenVectors
                 (kp_x k - kp_x h, kp_y k - kp_y h)
                 (kp_x k - kp_x a, kp_y k - kp_y a))
       }
     })"

definition calculateShoulderAngle :: "Keypoints \<Rightarrow> Side \<Rightarrow> real option" where
  "calculateShoulderAngle ks side =
    (let hip = ks (side_hip side); shoulder = ks (side_shoulder side);
         elbow = ks (side_elbow side)
     in do {
       ok \<leftarrow> areKeypointsVisible [hip, shoulder, elbow];
       if \<not> ok then Some 0
       else do {
         h \<leftarrow> hip; s \<leftarrow> shoulder; e \<leftarrow> elbow;
         Some (calculateAngleBetweenVectors
                 (kp_x s - kp_x h, kp_y s - kp_y h)
                 (kp_x s - kp_x e, kp_y s - kp_y e))
       }
     })"

definition calculateElbowAngle :: "Keypoints \<Rightarrow> Side \<Rightarrow> real option" where
  "calculateElbowAngle ks side =
    (let shoulder = ks (side_shoulder side); elbow = ks (side_elbow side);
         wrist = ks (side_wrist side)
     in do {
       ok \<leftarrow> areKeypointsVisible [shoulder, elbow, wrist];
       if \<not> ok then Some 0
       else do {
         s \<leftarrow> shoulder; e \<leftarrow> elbow; w \<leftarrow> wrist;
         Some (calculateAngleBetweenVectors
                 (kp_x e - kp_x s, kp_y e - kp_y s)
                 (kp_x e - kp_x w, kp_y e - kp_y w))
       }
     })"

text \<open>\<open>a.confidence > b.confidence ? a : b\<close>, where reading \<open>.confidence\<close> of an absent
  keypoint throws.\<close>

definition moreConfident :: "Keypoint option \<Rightarrow> Keypoint option \<Rightarrow> Keypoint option" where
  "moreConfident l r = do {
     a \<leftarrow> l; b \<leftarrow> r;
     Some (if confidence a > confidence b then a else b)
   }"

definition calculateNeckAngle :: "Keypoints \<Rightarrow> real option" where
  "calculateNeckAngle ks = do {
     ear \<leftarrow> moreConfident (ks left_ear) (ks right_ear);
     shoulder \<leftarrow> moreConfident (ks left_shoulder) (ks right_shoulder);
     hip \<leftarrow> moreConfident (ks left_hip) (ks right_hip);
     ok \<leftarrow> areKeypointsVisible [Some ear, Some shoulder, Some hip];
     if \<not> ok then Some 0
     else Some (calculateAngleBetweenVectors
                  (kp_x shoulder - kp_x ear, kp_y shoulder - kp_y ear)
                  (kp_x shoulder - kp_x hip, kp_y shoulder - kp_y hip))
   }"

definition calculateJointAngles :: "Keypoints \<Rightarrow> Angles option" where
  "calculateJointAngles ks = do {
     lh \<leftarrow> calculateHipAngle ks Left;
     rh \<leftarrow> calculateHipAngle ks Right;
     lk \<leftarrow> calculateKneeAngle ks Left;
     rk \<leftarrow> calculateKneeAngle ks Right;
     ls \<leftarrow> calculateShoulderAngle ks Left;
     rs \<leftarrow> calculateShoulderAngle ks Right;
     le \<leftarrow> calculateElbowAngle ks Left;
     re \<leftarrow> calculateElbowAngle ks Right;
     n \<leftarrow> calculateNeckAngle ks;
     Some \<lparr>leftHip = lh, rightHip = rh, leftKnee = lk, rightKnee = rk,
           leftShoulder = ls, rightShoulder = rs, leftElbow = le, rightElbow = re,
           neck = n\<rparr>
   }"

subsection \<open>Body line\<close>

record BodyLine =
  bl_angle :: real
  bl_confidence :: real

definition calculateBodyLineForSide :: "Keypoints \<Rightarrow> Side \<Rightarrow> BodyLine option" where
  "calculateBodyLineForSide ks side =
    (let shoulder = ks (side_shoulder side); hip = ks (side_hip side);
         ankle = ks (side_ankle side)
     in do {
       ok \<leftarrow> areKeypointsVisible [shoulder, hip, ankle];
       if \<not> ok then Some \<lparr>bl_angle = 0, bl_confidence = 0\<rparr>
       else do {
         s \<leftarrow> shoulder; h \<leftarrow> hip; a \<leftarrow> ankle;
         let dx = kp_x a - kp_x s;
         let dy = kp_y a - kp_y s;
         let angle = atan2 dx dy * (180 / pi);
         let conf = (confidence s + confidence h + confidence a) / 3;
         Some \<lparr>bl_angle = angle, bl_confidence = conf\<rparr>
       }
     })"

definition calculateBodyLineStraightness :: "Keypoints \<Rightarrow> BodyLine option" where
  "calculateBodyLineStraightness ks = do {
     leftSide \<leftarrow> calculateBodyLineForSide ks Left;
     rightSide \<leftarrow> calculateBodyLineForSide ks Right;
     if bl_confidence leftSide > bl_confidence rightSide then Some leftSide
     else Some rightSide
   }"

subsection \<open>Reference positions\<close>

definition calculateBodyPositions :: "Keypoints \<Rightarrow> Positions option" where
  "calculateBodyPositions ks = do {
     hipH \<leftarrow> averageY [ks left_hip, ks right_hip];
     shoulderH \<leftarrow> averageY [ks left_shoulder, ks right_shoulder];
     leftAnkle \<leftarrow> ks left_ankle;
     let leftAnkleH = (if confidence leftAnkle \<ge> 6/10 then kp_y leftAnkle else 0);
     rightAnkle \<leftarrow> ks right_ankle;
     let rightAnkleH = (if confidence rightAnkle \<ge> 6/10 then kp_y rightAnkle else 0);
     headH \<leftarrow> averageY [ks left_ear, ks right_ear];
     Some \<lparr>hipHeight = hipH, shoulderHeight = shoulderH, headHeight = headH,
           leftAnkleHeight = leftAnkleH, rightAnkleHeight = rightAnkleH\<rparr>
   }"

subsection \<open>Velocity and stability\<close>

text \<open>\<open>now\<close> is the value \<open>Date.now()\<close> returns inside \<open>calculateVelocities\<close>; it is read
  only when a previous Features is stored. The parameter \<open>angles\<close> of the source is not
  used by its body.\<close>

definition calculateVelocities ::
  "FeatureEngine \<Rightarrow> real \<Rightarrow> Angles \<Rightarrow> Positions \<Rightarrow> real \<Rightarrow> Velocity" where
  "calculateVelocities this now angs pos bodyLine =
    (case previousFeatures this of
       None \<Rightarrow> \<lparr>vel_bodyLineAngle = 0, vel_hipHeight = 0, vel_shoulderHeight = 0\<rparr>
     | Some prev \<Rightarrow>
         (let timeDiff = (now - timestamp prev) / 1000
          in if timeDiff \<le> 0
             then \<lparr>vel_bodyLineAngle = 0, vel_hipHeight = 0, vel_shoulderHeight = 0\<rparr>
             else \<lparr>vel_bodyLineAngle = (bodyLine - bodyLineAngle prev) / timeDiff,
                   vel_hipHeight = (hipHeight pos - hipHeight (positions prev)) / timeDiff,
                   vel_shoulderHeight =
                     (shoulderHeight pos - shoulderHeight (positions prev)) / timeDiff\<rparr>))"

definition calculateStability :: "FeatureEngine \<Rightarrow> Velocity \<Rightarrow> Stability" where
  "calculateStability this v =
    (let isMoving = (\<bar>vel_bodyLineAngle v\<bar> > motionThreshold (config this)
                     \<or> \<bar>vel_hipHeight v\<bar> > motionThreshold (config this)
                     \<or> \<bar>vel_shoulderHeight v\<bar> > motionThreshold (config this));
         maxVelocity = max (max \<bar>vel_bodyLineAngle v\<bar> \<bar>vel_hipHeight v\<bar>) \<bar>vel_shoulderHeight v\<bar>;
         score = max 0 (1 - maxVelocity / (motionThreshold (config this) * 2))
     in \<lparr>isStable = \<not> isMoving, stabilityScore = score, motionGate = isMoving\<rparr>)"

subsection \<open>Visibility\<close>

text \<open>\<open>Object.keys(keypoints)\<close>: the keys that are present.\<close>

definition keypointNames :: "Keypoints \<Rightarrow> KeypointName list" where
  "keypointNames ks = filter (\<lambda>n. ks n \<noteq> None) allKeypointNames"

definition isVisibleName :: "Keypoints \<Rightarrow> KeypointName \<Rightarrow> bool" where
  "isVisibleName ks n = (case ks n of Some kp \<Rightarrow> confidence kp \<ge> 6/10 | None \<Rightarrow> False)"

text \<open>\<open>keypoints[point]?.confidence || 0\<close>\<close>

definition confidenceOrZero :: "Keypoints \<Rightarrow> KeypointName \<Rightarrow> real" where
  "confidenceOrZero ks n = (case ks n of Some kp \<Rightarrow> confidence kp | None \<Rightarrow> 0)"

text \<open>The local \<open>criticalVisibility\<close> is computed and then not used; it cannot throw.
  The quotient \<open>overall\<close> has a non-zero denominator whenever this function is reached
  from \<open>calculateFeatures\<close>, since the earlier steps throw on an object without keys.\<close>

definition calculateVisibility :: "Keypoints \<Rightarrow> Visibility option" where
  "calculateVisibility ks =
    (let names = keypointNames ks;
         visibleKeypoints = filter (isVisibleName ks) names;
         ov = real (length visibleKeypoints) / real (length names);
         criticalPts = [left_shoulder, right_shoulder, left_hip, right_hip,
                        left_ankle, right_ankle];
         criticalVisibility =
           foldl (\<lambda>sum point. sum + confidenceOrZero ks point) 0 criticalPts
             / real (length criticalPts)
     in do {
       ls \<leftarrow> ks left_shoulder; rs \<leftarrow> ks right_shoulder;
       lh \<leftarrow> ks left_hip; rh \<leftarrow> ks right_hip;
       la \<leftarrow> ks left_ankle; ra \<leftarrow> ks right_ankle;
       Some \<lparr>overall = ov,
             criticalPoints =
               \<lparr>shoulders = (confidence ls + confidence rs) / 2,
                hips = (confidence lh + confidence rh) / 2,
                ankles = (confidence la + confidence ra) / 2\<rparr>,
             hasMinimumVisibility = (ov \<ge> 1/2)\<rparr>
     })"

subsection \<open>Smoothing\<close>

definition applySmoothing :: "FeatureEngine \<Rightarrow> Features \<Rightarrow> Features" where
  "applySmoothing this features =
    (case previousFeatures this of
       None \<Rightarrow> features
     | Some prev \<Rightarrow>
         (let alpha = this_smoothingFactor this;
              a = angles features;
              pa = angles prev
          in features
              \<lparr>angles :=
                 \<lparr>leftHip = smoothValue (leftHip a) (leftHip pa) alpha,
                  rightHip = smoothValue (rightHip a) (rightHip pa) alpha,
                  leftKnee = smoothValue (leftKnee a) (leftKnee pa) alpha,
                  rightKnee = smoothValue (rightKnee a) (rightKnee pa) alpha,
                  leftShoulder = smoothValue (leftShoulder a) (leftShoulder pa) alpha,
                  rightShoulder = smoothValue (rightShoulder a) (rightShoulder pa) alpha,
                  leftElbow = smoothValue (leftElbow a) (leftElbow pa) alpha,
                  rightElbow = smoothValue (rightElbow a) (rightElbow pa) alpha,
                  neck = smoothValue (neck a) (neck pa) alpha\<rparr>,
               bodyLineAngle :=
                 smoothValue (bodyLineAngle features) (bodyLineAngle prev) alpha\<rparr>))"

subsection \<open>calculateFeatures\<close>

text \<open>Lines 37 to 68 of the source: the object \<open>features\<close> before smoothing. \<open>None\<close> when
  one of the steps throws.\<close>

definition buildFeatures :: "FeatureEngine \<Rightarrow> real \<Rightarrow> Pose \<Rightarrow> Features option" where
  "buildFeatures this now pose =
    (let ks = keypoints pose in do {
       angs \<leftarrow> calculateJointAngles ks;
       bodyLineData \<leftarrow> calculateBodyLineStraightness ks;
       pos \<leftarrow> calculateBodyPositions ks;
       let vel = calculateVelocities this now angs pos (bl_angle bodyLineData);
       let stab = calculateStability this vel;
       vis \<leftarrow> calculateVisibility ks;
       Some \<lparr>bodyLineAngle = bl_angle bodyLineData,
             bodyLineConfidence = bl_confidence bodyLineData,
             angles = angs, positions = pos, velocity = vel, stability = stab,
             visibility = vis, timestamp = pose_timestamp pose,
             frameId = pose_frameId pose\<rparr>
     })"

text \<open>The body of the \<open>try\<close> block: build, smooth when enabled and a previous Features is
  stored, store the result as the previous Features.\<close>

definition tryCalculate ::
  "FeatureEngine \<Rightarrow> real \<Rightarrow> Pose \<Rightarrow> (Features \<times> FeatureEngine) option" where
  "tryCalculate this now pose = do {
     features \<leftarrow> buildFeatures this now pose;
     let features' =
       (if smoothingFactor (config this) > 0 \<and> previousFeatures this \<noteq> None
        then applySmoothing this features else features);
     Some (features', this\<lparr>previousFeatures := Some features'\<rparr>)
   }"

text \<open>\<open>calculateFeatures\<close> with its \<open>catch\<close>: \<open>now\<close> is the clock read by
  \<open>calculateVelocities\<close>, \<open>done\<close> the clock read when the response is built. An exception
  leaves the engine as it was, since the assignment to \<open>previousFeatures\<close> is the last
  statement that can be reached before \<open>return\<close>.\<close>

definition calculateFeatures ::
  "FeatureEngine \<Rightarrow> real \<Rightarrow> real \<Rightarrow> Pose \<Rightarrow> ServiceResponse \<times> FeatureEngine" where
  "calculateFeatures this now done pose =
    (case tryCalculate this now pose of
       Some (features, this') \<Rightarrow> (Success features done, this')
     | None \<Rightarrow>
         (Failure \<lparr>err_type = ''pose_estimation_failed'', err_timestamp = done,
                   recoverable = True\<rparr> done, this))"

subsection \<open>Engines that a program can hold\<close>

text \<open>The states of an engine object: made by the constructor and changed only by its
  public methods.\<close>

inductive reachable :: "FeatureEngine \<Rightarrow> bool" where
  reachable_new: "reachable (constructor cfg)"
| reachable_update: "reachable this \<Longrightarrow> reachable (updateConfig this newConfig)"
| reachable_reset: "reachable this \<Longrightarrow> reachable (reset this)"
| reachable_calculate:
    "reachable this \<Longrightarrow> reachable (snd (calculateFeatures this now done pose))"

subsection \<open>Readings of the specification\<close>

text \<open>\<open>clamp(v, lo, hi)\<close> of the stability score in the specification.\<close>

definition clamp :: "real \<Rightarrow> real \<Rightarrow> real \<Rightarrow> real" where
  "clamp v lo hi = max lo (min hi v)"

text \<open>The side choice as the specification words it: the side with the higher mean
  confidence over shoulder, hip and ankle, and on equal means the side with the higher
  ankle confidence.\<close>

definition spec_meanConfidence :: "Keypoints \<Rightarrow> Side \<Rightarrow> real" where
  "spec_meanConfidence ks side =
     (confidenceOrZero ks (side_shoulder side) + confidenceOrZero ks (side_hip side)
        + confidenceOrZero ks (side_ankle side)) / 3"

definition spec_bodyLineSide :: "Keypoints \<Rightarrow> Side" where
  "spec_bodyLineSide ks =
    (if spec_meanConfidence ks Left > spec_meanConfidence ks Right then Left
     else if spec_meanConfidence ks Left < spec_meanConfidence ks Right then Right
     else if confidenceOrZero ks left_ankle > confidenceOrZero ks right_ankle then Left
     else Right)"

text \<open>The overall visibility as the specification words it: the number of named
  keypoints whose confidence is above 0.6, over the number of named keypoints.\<close>

definition spec_overall :: "Keypoints \<Rightarrow> real" where
  "spec_overall ks =
     real (length (filter (\<lambda>n. confidenceOrZero ks n > 6/10) allKeypointNames))
       / real (length allKeypointNames)"

text \<open>The elapsed time as the specification words it: the time in seconds between the
  current and the stored previous Features, read off their timestamps.\<close>

definition spec_elapsedSeconds :: "Features \<Rightarrow> Features \<Rightarrow> real" where
  "spec_elapsedSeconds current previous = (timestamp current - timestamp previous) / 1000"

subsection \<open>Concrete poses and engines\<close>

definition kpt :: "real \<Rightarrow> real \<Rightarrow> real \<Rightarrow> Keypoint" where
  "kpt px py c = \<lparr>kp_x = px, kp_y = py, confidence = c, kp_visibility = None\<rparr>"

definition mkPose :: "(KeypointName \<Rightarrow> Keypoint) \<Rightarrow> real \<Rightarrow> Pose" where
  "mkPose kp t =
    \<lparr>keypoints = (\<lambda>n. Some (kp n)), pose_timestamp = t, pose_frameId = ''frame'',
     visibilityScore = 0\<rparr>"

text \<open>The pose \<open>PoseService.processPredictions\<close> builds: every keypoint at the origin
  with confidence 0.\<close>

definition poseAllHidden :: Pose where
  "poseAllHidden =
     mkPose (\<lambda>n. \<lparr>kp_x = 0, kp_y = 0, confidence = 0, kp_visibility = Some not_visible\<rparr>)
       1000"

text \<open>An object without any key: not a value of the type \<open>Pose\<close>, but what an
  untyped caller could pass.\<close>

definition poseNoKeys :: Pose where
  "poseNoKeys =
     \<lparr>keypoints = Map.empty, pose_timestamp = 1000, pose_frameId = ''frame'',
      visibilityScore = 0\<rparr>"

text \<open>Every keypoint seen with confidence 1; the left hip, knee and ankle form a right
  angle at the knee.\<close>

definition poseRightAngle :: Pose where
  "poseRightAngle =
     mkPose ((\<lambda>n. kpt 0 0 1)(left_hip := kpt 0 1 1, left_ankle := kpt 1 0 1)) 1000"

text \<open>The same pose 100 ms later, with the left knee lost.\<close>

definition poseKneeHidden :: Pose where
  "poseKneeHidden =
     mkPose ((\<lambda>n. kpt 0 0 1)(left_hip := kpt 0 1 1, left_ankle := kpt 1 0 1,
                               left_knee := kpt 0 0 0)) 1100"

text \<open>Both sides visible with the same mean confidence 23/30; the left ankle is the more
  confident one. The left body line is vertical, the right one horizontal.\<close>

definition poseTie :: Pose where
  "poseTie =
     mkPose ((\<lambda>n. kpt 0 0 1)
       (left_shoulder := kpt 0 0 (7/10), left_hip := kpt 0 0 (7/10),
        left_ankle := kpt 0 1 (9/10),
        right_shoulder := kpt 0 0 (8/10), right_hip := kpt 0 0 (8/10),
        right_ankle := kpt 1 0 (7/10))) 1000"

text \<open>As \<open>poseTie\<close>, with the right ankle below the threshold.\<close>

definition poseLeftOnly :: Pose where
  "poseLeftOnly =
     mkPose ((\<lambda>n. kpt 0 0 1)
       (left_shoulder := kpt 0 0 (7/10), left_hip := kpt 0 0 (7/10),
        left_ankle := kpt 0 1 (9/10),
        right_shoulder := kpt 0 0 (8/10), right_hip := kpt 0 0 (8/10),
        right_ankle := kpt 1 0 (5/10))) 1000"

text \<open>Every keypoint with confidence exactly 0.6.\<close>

definition poseAtThreshold :: Pose where
  "poseAtThreshold = mkPose (\<lambda>n. kpt 0 0 (6/10)) 1000"

text \<open>What a fresh engine with the default configuration returns on
  \<open>poseAtThreshold\<close>.\<close>

definition featuresAtThreshold :: Features where
  "featuresAtThreshold =
    \<lparr>bodyLineAngle = 0, bodyLineConfidence = 6/10,
     angles = \<lparr>leftHip = 0, rightHip = 0, leftKnee = 0, rightKnee = 0,
           leftShoulder = 0, rightShoulder = 0, leftElbow = 0, rightElbow = 0, neck = 0\<rparr>,
     positions = \<lparr>hipHeight = 0, shoulderHeight = 0, headHeight = 0,
           leftAnkleHeight = 0, rightAnkleHeight = 0\<rparr>,
     velocity = \<lparr>vel_bodyLineAngle = 0, vel_hipHeight = 0, vel_shoulderHeight = 0\<rparr>,
     stability = \<lparr>isStable = True, stabilityScore = 1, motionGate = False\<rparr>,
     visibility = \<lparr>overall = 1,
                   criticalPoints = \<lparr>shoulders = 6/10, hips = 6/10, ankles = 6/10\<rparr>,
                   hasMinimumVisibility = True\<rparr>,
     timestamp = 1000, frameId = ''frame''\<rparr>"

text \<open>A fresh engine with the default configuration after one call on
  \<open>poseRightAngle\<close>, and the Features that call returned.\<close>

definition engineAfterFirstFrame :: FeatureEngine where
  "engineAfterFirstFrame = snd (calculateFeatures (constructor None) 1000 1000 poseRightAngle)"

definition firstFrameFeatures :: Features where
  "firstFrameFeatures =
    \<lparr>bodyLineAngle = 0, bodyLineConfidence = 1,
     angles = \<lparr>leftHip = 90, rightHip = 0, leftKnee = 90, rightKnee = 0,
           leftShoulder = 0, rightShoulder = 0, leftElbow = 0, rightElbow = 0, neck = 0\<rparr>,
     positions = \<lparr>hipHeight = 1/2, shoulderHeight = 0, headHeight = 0,
           leftAnkleHeight = 0, rightAnkleHeight = 0\<rparr>,
     velocity = \<lparr>vel_bodyLineAngle = 0, vel_hipHeight = 0, vel_shoulderHeight = 0\<rparr>,
     stability = \<lparr>isStable = True, stabilityScore = 1, motionGate = False\<rparr>,
     visibility = \<lparr>overall = 1, criticalPoints = \<lparr>shoulders = 1, hips = 1, ankles = 1\<rparr>,
                   hasMinimumVisibility = True\<rparr>,
     timestamp = 1000, frameId = ''frame''\<rparr>"

text \<open>What the second call, on \<open>poseKneeHidden\<close>, returns.\<close>

definition secondFrameFeatures :: Features where
  "secondFrameFeatures =
    \<lparr>bodyLineAngle = 0, bodyLineConfidence = 1,
     angles = \<lparr>leftHip = 81, rightHip = 0, leftKnee = 81, rightKnee = 0,
           leftShoulder = 0, rightShoulder = 0, leftElbow = 0, rightElbow = 0, neck = 0\<rparr>,
     positions = \<lparr>hipHeight = 1/2, shoulderHeight = 0, headHeight = 0,
           leftAnkleHeight = 0, rightAnkleHeight = 0\<rparr>,
     velocity = \<lparr>vel_bodyLineAngle = 0, vel_hipHeight = 0, vel_shoulderHeight = 0\<rparr>,
     stability = \<lparr>isStable = True, stabilityScore = 1, motionGate = False\<rparr>,
     visibility = \<lparr>overall = 20/21,
                   criticalPoints = \<lparr>shoulders = 1, hips = 1, ankles = 1\<rparr>,
                   hasMinimumVisibility = True\<rparr>,
     timestamp = 1100, frameId = ''frame''\<rparr>"

text \<open>What the engine after the first frame returns on \<open>poseTie\<close>, a pose that carries
  the timestamp 1000 of the first frame again, when the clock reads 1100.\<close>

definition repeatedFrameFeatures :: Features where
  "repeatedFrameFeatures =
    \<lparr>bodyLineAngle = 9, bodyLineConfidence = 23/30,
     angles = \<lparr>leftHip = 81, rightHip = 0, leftKnee = 81, rightKnee = 0,
           leftShoulder = 0, rightShoulder = 0, leftElbow = 0, rightElbow = 0, neck = 0\<rparr>,
     positions = \<lparr>hipHeight = 0, shoulderHeight = 0, headHeight = 0,
           leftAnkleHeight = 1, rightAnkleHeight = 0\<rparr>,
     velocity = \<lparr>vel_bodyLineAngle = 900, vel_hipHeight = -5, vel_shoulderHeight = 0\<rparr>,
     stability = \<lparr>isStable = False, stabilityScore = 0, motionGate = True\<rparr>,
     visibility = \<lparr>overall = 1,
                   criticalPoints = \<lparr>shoulders = 3/4, hips = 3/4, ankles = 4/5\<rparr>,
                   hasMinimumVisibility = True\<rparr>,
     timestamp = 1000, frameId = ''frame''\<rparr>"

text \<open>Two velocity triples for the default motion threshold 5.\<close>

definition velSlow :: Velocity where
  "velSlow = \<lparr>vel_bodyLineAngle = 2, vel_hipHeight = -3, vel_shoulderHeight = 1\<rparr>"

definition velFast :: Velocity where
  "velFast = \<lparr>vel_bodyLineAngle = 20, vel_hipHeight = 0, vel_shoulderHeight = 0\<rparr>"

section \<open>Basic facts about the model\<close>

lemma allKeypointNames_UNIV: "set allKeypointNames = UNIV"
proof -
  have "n \<in> set allKeypointNames" for n
    by (cases n) (simp_all add: allKeypointNames_def)
  then show ?thesis by blast
qed

lemma distinct_allKeypointNames: "distinct allKeypointNames"
  by (simp add: allKeypointNames_def)

lemma length_allKeypointNames: "length allKeypointNames = 21"
  by (simp add: allKeypointNames_def)

lemma wellTyped_iff: "wellTyped ks \<longleftrightarrow> (\<forall>n. ks n \<noteq> None)"
  by (simp add: wellTyped_def list_all_iff allKeypointNames_UNIV)

text \<open>Each helper on keypoints that are present: the guard, then the formula.\<close>

lemma calculateHipAngle_Some:
  assumes "ks (side_hip s) = Some h" "ks (side_knee s) = Some k" "ks (side_ankle s) = Some a"
  shows "calculateHipAngle ks s =
     Some (if confidence h \<ge> 6/10 \<and> confidence k \<ge> 6/10 \<and> confidence a \<ge> 6/10
           then calculateAngleBetweenVectors (kp_x h - kp_x k, kp_y h - kp_y k)
                  (kp_x a - kp_x k, kp_y a - kp_y k)
           else 0)"
  using assms by (auto simp: calculateHipAngle_def Let_def)

lemma calculateKneeAngle_Some:
  assumes "ks (side_hip s) = Some h" "ks (side_knee s) = Some k" "ks (side_ankle s) = Some a"
  shows "calculateKneeAngle ks s =
     Some (if confidence h \<ge> 6/10 \<and> confidence k \<ge> 6/10 \<and> confidence a \<ge> 6/10
           then calculateAngleBetweenVectors (kp_x k - kp_x h, kp_y k - kp_y h)
                  (kp_x k - kp_x a, kp_y k - kp_y a)
           else 0)"
  using assms by (auto simp: calculateKneeAngle_def Let_def)

lemma calculateShoulderAngle_Some:
  assumes "ks (side_hip s) = Some h" "ks (side_shoulder s) = Some sh"
    "ks (side_elbow s) = Some e"
  shows "calculateShoulderAngle ks s =
     Some (if confidence h \<ge> 6/10 \<and> confidence sh \<ge> 6/10 \<and> confidence e \<ge> 6/10
           then calculateAngleBetweenVectors (kp_x sh - kp_x h, kp_y sh - kp_y h)
                  (kp_x sh - kp_x e, kp_y sh - kp_y e)
           else 0)"
  using assms by (auto simp: calculateShoulderAngle_def Let_def)

lemma calculateElbowAngle_Some:
  assumes "ks (side_shoulder s) = Some sh" "ks (side_elbow s) = Some e"
    "ks (side_wrist s) = Some w"
  shows "calculateElbowAngle ks s =
     Some (if confidence sh \<ge> 6/10 \<and> confidence e \<ge> 6/10 \<and> confidence w \<ge> 6/10
           then calculateAngleBetweenVectors (kp_x e - kp_x sh, kp_y e - kp_y sh)
                  (kp_x e - kp_x w, kp_y e - kp_y w)
           else 0)"
  using assms by (auto simp: calculateElbowAngle_def Let_def)

lemma calculateNeckAngle_Some:
  assumes "ks left_ear = Some le" "ks right_ear = Some re"
    "ks left_shoulder = Some ls" "ks right_shoulder = Some rs"
    "ks left_hip = Some lh" "ks right_hip = Some rh"
  shows "calculateNeckAngle ks =
     (let ear = (if confidence le > confidence re then le else re);
          shoulder = (if confidence ls > confidence rs then ls else rs);
          hip = (if confidence lh > confidence rh then lh else rh)
      in Some (if confidence ear \<ge> 6/10 \<and> confidence shoulder \<ge> 6/10
                  \<and> confidence hip \<ge> 6/10
               then calculateAngleBetweenVectors
                      (kp_x shoulder - kp_x ear, kp_y shoulder - kp_y ear)
                      (kp_x shoulder - kp_x hip, kp_y shoulder - kp_y hip)
               else 0))"
  using assms by (auto simp: calculateNeckAngle_def moreConfident_def Let_def)

lemma calculateBodyLineForSide_Some:
  assumes "ks (side_shoulder s) = Some sh" "ks (side_hip s) = Some h"
    "ks (side_ankle s) = Some a"
  shows "calculateBodyLineForSide ks s =
     Some (if confidence sh \<ge> 6/10 \<and> confidence h \<ge> 6/10 \<and> confidence a \<ge> 6/10
           then \<lparr>bl_angle = atan2 (kp_x a - kp_x sh) (kp_y a - kp_y sh) * (180 / pi),
                 bl_confidence = (confidence sh + confidence h + confidence a) / 3\<rparr>
           else \<lparr>bl_angle = 0, bl_confidence = 0\<rparr>)"
  using assms by (auto simp: calculateBodyLineForSide_def Let_def)

lemma averageY2:
  "averageY [Some a, Some b] =
     Some (if confidence a \<ge> 6/10 \<and> confidence b \<ge> 6/10 then (kp_y a + kp_y b) / 2
           else if confidence a \<ge> 6/10 then kp_y a
           else if confidence b \<ge> 6/10 then kp_y b
           else 0)"
  by (simp add: averageY_def)

lemma arccos_degrees_range:
  fixes c :: real
  shows "0 \<le> arccos (max (-1) (min 1 c)) * (180 / pi)
       \<and> arccos (max (-1) (min 1 c)) * (180 / pi) \<le> 180"
proof -
  let ?a = "arccos (max (-1) (min 1 c))"
  have b: "-1 \<le> max (-1) (min 1 c)" "max (-1) (min 1 c) \<le> 1" by auto
  have lo: "0 \<le> ?a" using arccos_lbound [OF b] .
  have hi: "?a \<le> pi" using arccos_ubound [OF b] .
  have "?a * (180 / pi) \<le> pi * (180 / pi)"
    using hi by (intro mult_right_mono) auto
  then have "?a * (180 / pi) \<le> 180" by simp
  moreover have "0 \<le> ?a * (180 / pi)" using lo by simp
  ultimately show ?thesis by simp
qed


lemma wellTyped_fun: "wellTyped ks \<Longrightarrow> \<exists>kp. ks = (\<lambda>n. Some (kp n))"
proof -
  assume "wellTyped ks"
  then have "ks = (\<lambda>n. Some (the (ks n)))"
    by (auto simp: wellTyped_iff)
  then show ?thesis by (rule exI [of _ "\<lambda>n. the (ks n)"])
qed

text \<open>A guard that answers true has seen three present, visible keypoints.\<close>

lemma areKeypointsVisible3_True:
  "areKeypointsVisible [a, b, c] = Some True \<longleftrightarrow>
     (\<exists>ka kb kc. a = Some ka \<and> b = Some kb \<and> c = Some kc
        \<and> confidence ka \<ge> 6/10 \<and> confidence kb \<ge> 6/10 \<and> confidence kc \<ge> 6/10)"
  by (cases a; cases b; cases c) auto

lemma guard_True_visible:
  assumes "areKeypointsVisible [ks a, ks b, ks c] = Some True"
  shows "isVisibleName ks a \<and> isVisibleName ks b \<and> isVisibleName ks c"
  using assms unfolding areKeypointsVisible3_True by (auto simp: isVisibleName_def)

lemma guarded_hidden:
  assumes "(areKeypointsVisible [ks a, ks b, ks c] \<bind> (\<lambda>ok. if \<not> ok then Some z else F))
             = Some v"
    and "\<not> (isVisibleName ks a \<and> isVisibleName ks b \<and> isVisibleName ks c)"
  shows "v = z"
proof (cases "areKeypointsVisible [ks a, ks b, ks c]")
  case None
  with assms(1) show ?thesis by simp
next
  case (Some ok)
  with guard_True_visible [of ks a b c] assms(2) have "\<not> ok" by auto
  with Some assms(1) show ?thesis by simp
qed

lemma calculateHipAngle_hidden:
  assumes "calculateHipAngle ks s = Some v"
    and "\<not> (isVisibleName ks (side_hip s) \<and> isVisibleName ks (side_knee s)
            \<and> isVisibleName ks (side_ankle s))"
  shows "v = 0"
  using assms(1) unfolding calculateHipAngle_def Let_def
  by (rule guarded_hidden) (rule assms(2))

lemma calculateKneeAngle_hidden:
  assumes "calculateKneeAngle ks s = Some v"
    and "\<not> (isVisibleName ks (side_hip s) \<and> isVisibleName ks (side_knee s)
            \<and> isVisibleName ks (side_ankle s))"
  shows "v = 0"
  using assms(1) unfolding calculateKneeAngle_def Let_def
  by (rule guarded_hidden) (rule assms(2))

lemma calculateShoulderAngle_hidden:
  assumes "calculateShoulderAngle ks s = Some v"
    and "\<not> (isVisibleName ks (side_hip s) \<and> isVisibleName ks (side_shoulder s)
            \<and> isVisibleName ks (side_elbow s))"
  shows "v = 0"
  using assms(1) unfolding calculateShoulderAngle_def Let_def
  by (rule guarded_hidden) (rule assms(2))

lemma calculateElbowAngle_hidden:
  assumes "calculateElbowAngle ks s = Some v"
    and "\<not> (isVisibleName ks (side_shoulder s) \<and> isVisibleName ks (side_elbow s)
            \<and> isVisibleName ks (side_wrist s))"
  shows "v = 0"
  using assms(1) unfolding calculateElbowAngle_def Let_def
  by (rule guarded_hidden) (rule assms(2))

lemma calculateBodyLineForSide_hidden:
  assumes "calculateBodyLineForSide ks s = Some b"
    and "\<not> (isVisibleName ks (side_shoulder s) \<and> isVisibleName ks (side_hip s)
            \<and> isVisibleName ks (side_ankle s))"
  shows "b = \<lparr>bl_angle = 0, bl_confidence = 0\<rparr>"
  using assms(1) unfolding calculateBodyLineForSide_def Let_def
  by (rule guarded_hidden) (rule assms(2))

text \<open>The neck helper guards the more confident ear, shoulder and hip: one of the three
  pairs hidden on both sides gives 0.\<close>

lemma calculateNeckAngle_hidden:
  assumes "calculateNeckAngle ks = Some v"
    and "(\<not> isVisibleName ks left_ear \<and> \<not> isVisibleName ks right_ear)
       \<or> (\<not> isVisibleName ks left_shoulder \<and> \<not> isVisibleName ks right_shoulder)
       \<or> (\<not> isVisibleName ks left_hip \<and> \<not> isVisibleName ks right_hip)"
  shows "v = 0"
proof -
  from assms(1) obtain le re ls rs lh rh where k:
    "ks left_ear = Some le" "ks right_ear = Some re"
    "ks left_shoulder = Some ls" "ks right_shoulder = Some rs"
    "ks left_hip = Some lh" "ks right_hip = Some rh"
    by (auto simp: calculateNeckAngle_def moreConfident_def split: bind_splits)
  from assms(2) have "\<not> (confidence (if confidence le > confidence re then le else re) \<ge> 6/10
      \<and> confidence (if confidence ls > confidence rs then ls else rs) \<ge> 6/10
      \<and> confidence (if confidence lh > confidence rh then lh else rh) \<ge> 6/10)"
    by (auto simp: isVisibleName_def k)
  with assms(1) show ?thesis
    unfolding calculateNeckAngle_Some [OF k] Let_def by (simp split: if_splits)
qed

text \<open>None of the steps throws on an object that has all its keys.\<close>

lemma calculateJointAngles_total:
  assumes "wellTyped ks"
  shows "\<exists>a. calculateJointAngles ks = Some a"
proof -
  from wellTyped_fun [OF assms] obtain kp where ks: "ks = (\<lambda>n. Some (kp n))" by blast
  have h: "calculateHipAngle ks s \<noteq> None" "calculateKneeAngle ks s \<noteq> None"
    "calculateShoulderAngle ks s \<noteq> None" "calculateElbowAngle ks s \<noteq> None" for s
    by (simp_all add: ks calculateHipAngle_Some calculateKneeAngle_Some
        calculateShoulderAngle_Some calculateElbowAngle_Some)
  have n: "calculateNeckAngle ks \<noteq> None"
    by (simp add: ks calculateNeckAngle_Some Let_def)
  from h [of Left] h [of Right] n obtain a1 a2 a3 a4 a5 a6 a7 a8 a9 where
    "calculateHipAngle ks Left = Some a1" "calculateHipAngle ks Right = Some a2"
    "calculateKneeAngle ks Left = Some a3" "calculateKneeAngle ks Right = Some a4"
    "calculateShoulderAngle ks Left = Some a5" "calculateShoulderAngle ks Right = Some a6"
    "calculateElbowAngle ks Left = Some a7" "calculateElbowAngle ks Right = Some a8"
    "calculateNeckAngle ks = Some a9"
    by auto
  then show ?thesis
    by (simp add: calculateJointAngles_def)
qed

lemma calculateBodyLineStraightness_total:
  assumes "wellTyped ks"
  shows "\<exists>b. calculateBodyLineStraightness ks = Some b"
proof -
  from wellTyped_fun [OF assms] obtain kp where ks: "ks = (\<lambda>n. Some (kp n))" by blast
  have "calculateBodyLineForSide ks s \<noteq> None" for s
    by (simp add: ks calculateBodyLineForSide_Some)
  from this [of Left] this [of Right] obtain l r where
    "calculateBodyLineForSide ks Left = Some l" "calculateBodyLineForSide ks Right = Some r"
    by auto
  then show ?thesis by (simp add: calculateBodyLineStraightness_def)
qed

lemma calculateBodyPositions_total:
  assumes "wellTyped ks"
  shows "\<exists>p. calculateBodyPositions ks = Some p"
proof -
  from wellTyped_fun [OF assms] obtain kp where ks: "ks = (\<lambda>n. Some (kp n))" by blast
  show ?thesis by (simp add: ks calculateBodyPositions_def averageY2 Let_def)
qed

lemma calculateVisibility_total:
  assumes "wellTyped ks"
  shows "\<exists>v. calculateVisibility ks = Some v"
proof -
  from wellTyped_fun [OF assms] obtain kp where ks: "ks = (\<lambda>n. Some (kp n))" by blast
  show ?thesis by (simp add: ks calculateVisibility_def Let_def)
qed

lemma buildFeatures_total:
  assumes "wellTyped (keypoints pose)"
  shows "\<exists>f. buildFeatures this now pose = Some f"
  using calculateJointAngles_total [OF assms] calculateBodyLineStraightness_total [OF assms]
    calculateBodyPositions_total [OF assms] calculateVisibility_total [OF assms]
  by (auto simp: buildFeatures_def Let_def)

lemma tryCalculate_total:
  assumes "wellTyped (keypoints pose)"
  shows "\<exists>f this'. tryCalculate this now pose = Some (f, this')"
  using buildFeatures_total [OF assms, of this now]
  by (auto simp: tryCalculate_def Let_def)

lemma wellTyped_mkPose: "wellTyped (keypoints (mkPose kp t))"
  by (simp add: wellTyped_iff mkPose_def)

lemma calculateJointAngles_SomeD:
  assumes "calculateJointAngles ks = Some a"
  shows "calculateHipAngle ks Left = Some (leftHip a)"
    and "calculateHipAngle ks Right = Some (rightHip a)"
    and "calculateKneeAngle ks Left = Some (leftKnee a)"
    and "calculateKneeAngle ks Right = Some (rightKnee a)"
    and "calculateShoulderAngle ks Left = Some (leftShoulder a)"
    and "calculateShoulderAngle ks Right = Some (rightShoulder a)"
    and "calculateElbowAngle ks Left = Some (leftElbow a)"
    and "calculateElbowAngle ks Right = Some (rightElbow a)"
    and "calculateNeckAngle ks = Some (neck a)"
  using assms by (auto simp: calculateJointAngles_def split: bind_splits)

lemma buildFeatures_SomeD:
  assumes "buildFeatures this now pose = Some f"
  shows "calculateJointAngles (keypoints pose) = Some (angles f)"
    and "calculateBodyLineStraightness (keypoints pose)
           = Some \<lparr>bl_angle = bodyLineAngle f, bl_confidence = bodyLineConfidence f\<rparr>"
    and "calculateBodyPositions (keypoints pose) = Some (positions f)"
    and "velocity f = calculateVelocities this now (angles f) (positions f) (bodyLineAngle f)"
    and "stability f = calculateStability this (velocity f)"
    and "calculateVisibility (keypoints pose) = Some (visibility f)"
    and "timestamp f = pose_timestamp pose"
    and "frameId f = pose_frameId pose"
  using assms by (auto simp: buildFeatures_def Let_def split: bind_splits)

lemma calculateBodyLineStraightness_SomeD:
  assumes "calculateBodyLineStraightness ks = Some b"
  shows "\<exists>l r. calculateBodyLineForSide ks Left = Some l
           \<and> calculateBodyLineForSide ks Right = Some r
           \<and> b = (if bl_confidence l > bl_confidence r then l else r)"
  using assms by (auto simp: calculateBodyLineStraightness_def split: bind_splits if_splits)

lemma keypointNames_wellTyped: "wellTyped ks \<Longrightarrow> keypointNames ks = allKeypointNames"
  by (simp add: keypointNames_def wellTyped_iff)

lemma calculateVisibility_overall:
  assumes "wellTyped ks" and "calculateVisibility ks = Some v"
  shows "overall v = real (length (filter (isVisibleName ks) allKeypointNames)) / 21"
    and "hasMinimumVisibility v = (overall v \<ge> 1/2)"
  using assms(2)
  by (auto simp: calculateVisibility_def Let_def keypointNames_wellTyped [OF assms(1)]
      length_allKeypointNames split: bind_splits)

lemma calculateVisibility_critical:
  assumes "calculateVisibility ks = Some v"
  shows "criticalPoints v =
      \<lparr>shoulders = (confidenceOrZero ks left_shoulder + confidenceOrZero ks right_shoulder) / 2,
       hips = (confidenceOrZero ks left_hip + confidenceOrZero ks right_hip) / 2,
       ankles = (confidenceOrZero ks left_ankle + confidenceOrZero ks right_ankle) / 2\<rparr>"
  using assms
  by (auto simp: calculateVisibility_def Let_def confidenceOrZero_def split: bind_splits)

text \<open>The engine stores what it returns; smoothing happens only with a positive factor
  and a stored previous Features.\<close>

lemma tryCalculate_smoothed:
  assumes "buildFeatures this now pose = Some raw"
    and "0 < smoothingFactor (config this)" and "previousFeatures this = Some prev"
  shows "tryCalculate this now pose =
     Some (applySmoothing this raw, this\<lparr>previousFeatures := Some (applySmoothing this raw)\<rparr>)"
  using assms by (simp add: tryCalculate_def Let_def)

lemma tryCalculate_plain:
  assumes "buildFeatures this now pose = Some raw"
    and "previousFeatures this = None \<or> smoothingFactor (config this) \<le> 0"
  shows "tryCalculate this now pose = Some (raw, this\<lparr>previousFeatures := Some raw\<rparr>)"
  using assms by (auto simp: tryCalculate_def Let_def)

lemma applySmoothing_frame:
  "bodyLineConfidence (applySmoothing this f) = bodyLineConfidence f"
  "positions (applySmoothing this f) = positions f"
  "velocity (applySmoothing this f) = velocity f"
  "stability (applySmoothing this f) = stability f"
  "visibility (applySmoothing this f) = visibility f"
  "timestamp (applySmoothing this f) = timestamp f"
  "frameId (applySmoothing this f) = frameId f"
  by (simp_all add: applySmoothing_def Let_def split: option.splits)

text \<open>In every engine a program can hold, the cached smoothing factor is the configured
  one.\<close>

lemma calculateFeatures_keeps_config:
  "config (snd (calculateFeatures this now done pose)) = config this"
  "this_smoothingFactor (snd (calculateFeatures this now done pose)) = this_smoothingFactor this"
  by (auto simp: calculateFeatures_def tryCalculate_def Let_def split: option.splits bind_splits)

lemma reachable_sync:
  "reachable this \<Longrightarrow> this_smoothingFactor this = smoothingFactor (config this)"
proof (induction rule: reachable.induct)
  case (reachable_new cfg)
  show ?case by (simp add: constructor_def Let_def)
next
  case (reachable_update e newConfig)
  show ?case by (simp add: updateConfig_def Let_def)
next
  case (reachable_reset e)
  then show ?case by (simp add: reset_def)
next
  case (reachable_calculate e t1 t2 p)
  then show ?case by (simp add: calculateFeatures_keeps_config)
qed


lemma calculateFeatures_result:
  assumes wt: "wellTyped (keypoints pose)"
  obtains raw f where "buildFeatures this now pose = Some raw"
    and "calculateFeatures this now done pose
           = (Success f done, this\<lparr>previousFeatures := Some f\<rparr>)"
    and "positions f = positions raw" and "visibility f = visibility raw"
    and "velocity f = velocity raw" and "stability f = stability raw"
proof -
  from buildFeatures_total [OF wt, of this now] obtain raw
    where raw: "buildFeatures this now pose = Some raw" by blast
  show ?thesis
  proof (cases "0 < smoothingFactor (config this) \<and> previousFeatures this \<noteq> None")
    case True
    then obtain prev where prev: "previousFeatures this = Some prev" by auto
    from True have en: "0 < smoothingFactor (config this)" by simp
    show ?thesis
    proof (rule that [of raw "applySmoothing this raw"])
      show "calculateFeatures this now done pose
           = (Success (applySmoothing this raw) done,
              this\<lparr>previousFeatures := Some (applySmoothing this raw)\<rparr>)"
        by (simp add: calculateFeatures_def tryCalculate_smoothed [OF raw en prev])
    qed (simp_all add: raw applySmoothing_frame)
  next
    case False
    then have off: "previousFeatures this = None \<or> smoothingFactor (config this) \<le> 0"
      by auto
    show ?thesis
    proof (rule that [of raw raw])
      show "calculateFeatures this now done pose
           = (Success raw done, this\<lparr>previousFeatures := Some raw\<rparr>)"
        by (simp add: calculateFeatures_def tryCalculate_plain [OF raw off])
    qed (simp_all add: raw)
  qed
qed

lemma card_visible:
  "length (filter P allKeypointNames) = card {n. P n}"
proof -
  have "length (filter P allKeypointNames) = card ({n. P n} \<inter> set allKeypointNames)"
    using distinct_allKeypointNames by (simp add: distinct_length_filter)
  then show ?thesis by (simp add: allKeypointNames_UNIV)
qed

lemma card_KeypointName: "card (UNIV :: KeypointName set) = 21"
  using card_visible [of "\<lambda>n. True"] by (simp add: length_allKeypointNames)

subsection \<open>The concrete poses, evaluated\<close>

lemmas helper_defs = calculateJointAngles_def calculateHipAngle_def calculateKneeAngle_def
  calculateShoulderAngle_def calculateElbowAngle_def calculateNeckAngle_def moreConfident_def
  calculateBodyLineStraightness_def calculateBodyLineForSide_def calculateBodyPositions_def
  averageY_def calculateAngleBetweenVectors_def atan2_def

lemmas vis_defs = calculateVisibility_def keypointNames_def allKeypointNames_def
  isVisibleName_def confidenceOrZero_def

lemmas engine_defs = calculateFeatures_def tryCalculate_def buildFeatures_def constructor_def
  calculateVelocities_def calculateStability_def spreadConfig_def defaultConfig_def
  noConfig_def applySmoothing_def smoothValue_def

lemma constructor_None:
  "constructor None =
     \<lparr>config = defaultConfig, previousFeatures = None, this_smoothingFactor = 1/10\<rparr>"
  by (simp add: constructor_def spreadConfig_def noConfig_def defaultConfig_def Let_def)

lemma poseAllHidden_hidden: "\<not> isVisibleName (keypoints poseAllHidden) n"
  by (simp add: poseAllHidden_def mkPose_def isVisibleName_def)

lemma poseKneeHidden_vis:
  "isVisibleName (keypoints poseKneeHidden) n = (n \<noteq> left_knee)"
  by (simp add: poseKneeHidden_def mkPose_def isVisibleName_def kpt_def)

lemma poseRightAngle_angles:
  "calculateJointAngles (keypoints poseRightAngle) =
    Some \<lparr>leftHip = 90, rightHip = 0, leftKnee = 90, rightKnee = 0,
          leftShoulder = 0, rightShoulder = 0, leftElbow = 0, rightElbow = 0, neck = 0\<rparr>"
  by (simp add: poseRightAngle_def mkPose_def kpt_def helper_defs Let_def)

lemma poseRightAngle_line:
  "calculateBodyLineStraightness (keypoints poseRightAngle)
     = Some \<lparr>bl_angle = 0, bl_confidence = 1\<rparr>"
  by (simp add: poseRightAngle_def mkPose_def kpt_def helper_defs Let_def)

lemma poseRightAngle_positions:
  "calculateBodyPositions (keypoints poseRightAngle)
     = Some \<lparr>hipHeight = 1/2, shoulderHeight = 0, headHeight = 0,
             leftAnkleHeight = 0, rightAnkleHeight = 0\<rparr>"
  by (simp add: poseRightAngle_def mkPose_def kpt_def helper_defs Let_def)

lemma poseRightAngle_visibility:
  "calculateVisibility (keypoints poseRightAngle)
     = Some \<lparr>overall = 1, criticalPoints = \<lparr>shoulders = 1, hips = 1, ankles = 1\<rparr>,
             hasMinimumVisibility = True\<rparr>"
  by (simp add: poseRightAngle_def mkPose_def kpt_def vis_defs Let_def)

lemma engineAfterFirstFrame_eq:
  "engineAfterFirstFrame =
     \<lparr>config = defaultConfig, previousFeatures = Some firstFrameFeatures,
      this_smoothingFactor = 1/10\<rparr>"
  by (simp add: engineAfterFirstFrame_def engine_defs poseRightAngle_angles
      poseRightAngle_line poseRightAngle_positions poseRightAngle_visibility Let_def
      firstFrameFeatures_def)
    (simp add: poseRightAngle_def mkPose_def)

lemma poseKneeHidden_angles:
  "calculateJointAngles (keypoints poseKneeHidden) =
    Some \<lparr>leftHip = 0, rightHip = 0, leftKnee = 0, rightKnee = 0,
          leftShoulder = 0, rightShoulder = 0, leftElbow = 0, rightElbow = 0, neck = 0\<rparr>"
  by (simp add: poseKneeHidden_def mkPose_def kpt_def helper_defs Let_def)

lemma poseKneeHidden_line:
  "calculateBodyLineStraightness (keypoints poseKneeHidden)
     = Some \<lparr>bl_angle = 0, bl_confidence = 1\<rparr>"
  by (simp add: poseKneeHidden_def mkPose_def kpt_def helper_defs Let_def)

lemma poseKneeHidden_positions:
  "calculateBodyPositions (keypoints poseKneeHidden)
     = Some \<lparr>hipHeight = 1/2, shoulderHeight = 0, headHeight = 0,
             leftAnkleHeight = 0, rightAnkleHeight = 0\<rparr>"
  by (simp add: poseKneeHidden_def mkPose_def kpt_def helper_defs Let_def)

lemma poseKneeHidden_visibility:
  "calculateVisibility (keypoints poseKneeHidden)
     = Some \<lparr>overall = 20/21, criticalPoints = \<lparr>shoulders = 1, hips = 1, ankles = 1\<rparr>,
             hasMinimumVisibility = True\<rparr>"
  by (simp add: poseKneeHidden_def mkPose_def kpt_def vis_defs Let_def)


lemma secondFrame_eq:
  "calculateFeatures engineAfterFirstFrame 1100 1100 poseKneeHidden =
     (Success secondFrameFeatures 1100,
      engineAfterFirstFrame\<lparr>previousFeatures := Some secondFrameFeatures\<rparr>)"
  by (simp add: engineAfterFirstFrame_eq engine_defs poseKneeHidden_angles
      poseKneeHidden_line poseKneeHidden_positions poseKneeHidden_visibility Let_def
      firstFrameFeatures_def secondFrameFeatures_def)
    (simp add: poseKneeHidden_def mkPose_def)

lemma engineAfterFirstFrame_reachable: "reachable engineAfterFirstFrame"
  unfolding engineAfterFirstFrame_def
  by (rule reachable_calculate) (rule reachable_new)

lemma poseAtThreshold_visibility:
  "calculateVisibility (keypoints poseAtThreshold)
     = Some \<lparr>overall = 1,
             criticalPoints = \<lparr>shoulders = 6/10, hips = 6/10, ankles = 6/10\<rparr>,
             hasMinimumVisibility = True\<rparr>"
  by (simp add: poseAtThreshold_def mkPose_def kpt_def vis_defs Let_def)

lemma poseAtThreshold_angles:
  "calculateJointAngles (keypoints poseAtThreshold) =
    Some \<lparr>leftHip = 0, rightHip = 0, leftKnee = 0, rightKnee = 0,
          leftShoulder = 0, rightShoulder = 0, leftElbow = 0, rightElbow = 0, neck = 0\<rparr>"
  by (simp add: poseAtThreshold_def mkPose_def kpt_def helper_defs Let_def)

lemma poseAtThreshold_line:
  "calculateBodyLineStraightness (keypoints poseAtThreshold)
     = Some \<lparr>bl_angle = 0, bl_confidence = 6/10\<rparr>"
  by (simp add: poseAtThreshold_def mkPose_def kpt_def helper_defs Let_def)

lemma poseAtThreshold_positions:
  "calculateBodyPositions (keypoints poseAtThreshold)
     = Some \<lparr>hipHeight = 0, shoulderHeight = 0, headHeight = 0,
             leftAnkleHeight = 0, rightAnkleHeight = 0\<rparr>"
  by (simp add: poseAtThreshold_def mkPose_def kpt_def helper_defs Let_def)

lemma featuresAtThreshold_eq:
  "calculateFeatures (constructor None) 1000 1000 poseAtThreshold =
     (Success featuresAtThreshold 1000,
      (constructor None)\<lparr>previousFeatures := Some featuresAtThreshold\<rparr>)"
  by (simp add: engine_defs poseAtThreshold_angles poseAtThreshold_line
      poseAtThreshold_positions poseAtThreshold_visibility Let_def featuresAtThreshold_def)
    (simp add: poseAtThreshold_def mkPose_def)

section \<open>Hidden keypoints and the angle fields\<close>

text \<open>
  Claim C1, as the specification states it, fails on the code. A fresh engine with the
  default configuration sees \<open>poseRightAngle\<close> (left hip angle 90) and then, 100 ms
  later, the same pose with the left knee at confidence 0. The second Features has
  \<open>leftHip = 81\<close> and \<open>leftKnee = 81\<close>, not 0: the helper returned 0 and the smoothing
  step mixed it with the previous 90. Its \<open>hasMinimumVisibility\<close> is true, since 20 of
  the 21 keypoints are visible.
\<close>

theorem smoothed_angle_nonzero_when_hidden:
  "\<not> isVisibleName (keypoints poseKneeHidden) left_knee
   \<and> fst (calculateFeatures engineAfterFirstFrame 1100 1100 poseKneeHidden)
       = Success secondFrameFeatures 1100
   \<and> leftHip (angles secondFrameFeatures) = 81
   \<and> leftKnee (angles secondFrameFeatures) = 81
   \<and> hasMinimumVisibility (visibility secondFrameFeatures) = True"
  by (simp add: poseKneeHidden_vis secondFrame_eq) (simp add: secondFrameFeatures_def)

text \<open>
  Claim C1, amended. On a call whose result is not smoothed (no previous Features is
  stored, as after construction or \<open>reset\<close>, or the smoothing factor is not positive),
  each joint-angle field is exactly 0 when one of the three keypoints its helper checks
  has confidence below 0.6; the neck field is 0 when both ears, both shoulders or both
  hips are below 0.6; the body-line angle and confidence are 0 when each side has a
  keypoint (shoulder, hip or ankle) below 0.6. \<open>hasMinimumVisibility\<close> is true exactly
  when at least 11 of the 21 named keypoints have confidence 0.6 or more, whichever
  keypoints those are.
\<close>

theorem unsmoothed_angle_zero_when_hidden:
  assumes wt: "wellTyped (keypoints pose)"
    and unsmoothed: "previousFeatures this = None \<or> smoothingFactor (config this) \<le> 0"
  shows "\<exists>f this'. calculateFeatures this now done pose = (Success f done, this')
    \<and> (\<not> (isVisibleName (keypoints pose) left_hip \<and> isVisibleName (keypoints pose) left_knee
           \<and> isVisibleName (keypoints pose) left_ankle)
         \<longrightarrow> leftHip (angles f) = 0 \<and> leftKnee (angles f) = 0)
    \<and> (\<not> (isVisibleName (keypoints pose) right_hip \<and> isVisibleName (keypoints pose) right_knee
           \<and> isVisibleName (keypoints pose) right_ankle)
         \<longrightarrow> rightHip (angles f) = 0 \<and> rightKnee (angles f) = 0)
    \<and> (\<not> (isVisibleName (keypoints pose) left_hip
           \<and> isVisibleName (keypoints pose) left_shoulder
           \<and> isVisibleName (keypoints pose) left_elbow)
         \<longrightarrow> leftShoulder (angles f) = 0)
    \<and> (\<not> (isVisibleName (keypoints pose) right_hip
           \<and> isVisibleName (keypoints pose) right_shoulder
           \<and> isVisibleName (keypoints pose) right_elbow)
         \<longrightarrow> rightShoulder (angles f) = 0)
    \<and> (\<not> (isVisibleName (keypoints pose) left_shoulder
           \<and> isVisibleName (keypoints pose) left_elbow
           \<and> isVisibleName (keypoints pose) left_wrist)
         \<longrightarrow> leftElbow (angles f) = 0)
    \<and> (\<not> (isVisibleName (keypoints pose) right_shoulder
           \<and> isVisibleName (keypoints pose) right_elbow
           \<and> isVisibleName (keypoints pose) right_wrist)
         \<longrightarrow> rightElbow (angles f) = 0)
    \<and> ((\<not> isVisibleName (keypoints pose) left_ear
           \<and> \<not> isVisibleName (keypoints pose) right_ear)
        \<or> (\<not> isVisibleName (keypoints pose) left_shoulder
           \<and> \<not> isVisibleName (keypoints pose) right_shoulder)
        \<or> (\<not> isVisibleName (keypoints pose) left_hip
           \<and> \<not> isVisibleName (keypoints pose) right_hip)
         \<longrightarrow> neck (angles f) = 0)
    \<and> (\<not> (isVisibleName (keypoints pose) left_shoulder
           \<and> isVisibleName (keypoints pose) left_hip
           \<and> isVisibleName (keypoints pose) left_ankle)
        \<and> \<not> (isVisibleName (keypoints pose) right_shoulder
           \<and> isVisibleName (keypoints pose) right_hip
           \<and> isVisibleName (keypoints pose) right_ankle)
         \<longrightarrow> bodyLineAngle f = 0 \<and> bodyLineConfidence f = 0)
    \<and> hasMinimumVisibility (visibility f)
        = (11 \<le> length (filter (isVisibleName (keypoints pose)) allKeypointNames))"
proof -
  let ?ks = "keypoints pose"
  from buildFeatures_total [OF wt, of this now] obtain f
    where f: "buildFeatures this now pose = Some f" by blast
  have res: "calculateFeatures this now done pose
      = (Success f done, this\<lparr>previousFeatures := Some f\<rparr>)"
    by (simp add: calculateFeatures_def tryCalculate_plain [OF f unsmoothed])
  note a = calculateJointAngles_SomeD [OF buildFeatures_SomeD(1) [OF f]]
  have lhip: "leftHip (angles f) = 0 \<and> leftKnee (angles f) = 0"
    if "\<not> (isVisibleName ?ks left_hip \<and> isVisibleName ?ks left_knee
           \<and> isVisibleName ?ks left_ankle)"
    using calculateHipAngle_hidden [OF a(1)] calculateKneeAngle_hidden [OF a(3)] that
    by simp
  have rhip: "rightHip (angles f) = 0 \<and> rightKnee (angles f) = 0"
    if "\<not> (isVisibleName ?ks right_hip \<and> isVisibleName ?ks right_knee
           \<and> isVisibleName ?ks right_ankle)"
    using calculateHipAngle_hidden [OF a(2)] calculateKneeAngle_hidden [OF a(4)] that
    by simp
  have lsh: "leftShoulder (angles f) = 0"
    if "\<not> (isVisibleName ?ks left_hip \<and> isVisibleName ?ks left_shoulder
           \<and> isVisibleName ?ks left_elbow)"
    using calculateShoulderAngle_hidden [OF a(5)] that by simp
  have rsh: "rightShoulder (angles f) = 0"
    if "\<not> (isVisibleName ?ks right_hip \<and> isVisibleName ?ks right_shoulder
           \<and> isVisibleName ?ks right_elbow)"
    using calculateShoulderAngle_hidden [OF a(6)] that by simp
  have lel: "leftElbow (angles f) = 0"
    if "\<not> (isVisibleName ?ks left_shoulder \<and> isVisibleName ?ks left_elbow
           \<and> isVisibleName ?ks left_wrist)"
    using calculateElbowAngle_hidden [OF a(7)] that by simp
  have rel: "rightElbow (angles f) = 0"
    if "\<not> (isVisibleName ?ks right_shoulder \<and> isVisibleName ?ks right_elbow
           \<and> isVisibleName ?ks right_wrist)"
    using calculateElbowAngle_hidden [OF a(8)] that by simp
  have nk: "neck (angles f) = 0"
    if "(\<not> isVisibleName ?ks left_ear \<and> \<not> isVisibleName ?ks right_ear)
        \<or> (\<not> isVisibleName ?ks left_shoulder \<and> \<not> isVisibleName ?ks right_shoulder)
        \<or> (\<not> isVisibleName ?ks left_hip \<and> \<not> isVisibleName ?ks right_hip)"
    using calculateNeckAngle_hidden [OF a(9)] that by simp
  have bl: "bodyLineAngle f = 0 \<and> bodyLineConfidence f = 0"
    if l: "\<not> (isVisibleName ?ks left_shoulder \<and> isVisibleName ?ks left_hip
           \<and> isVisibleName ?ks left_ankle)"
      and r: "\<not> (isVisibleName ?ks right_shoulder \<and> isVisibleName ?ks right_hip
           \<and> isVisibleName ?ks right_ankle)"
  proof -
    from calculateBodyLineStraightness_SomeD [OF buildFeatures_SomeD(2) [OF f]]
    obtain bl br where s: "calculateBodyLineForSide ?ks Left = Some bl"
      "calculateBodyLineForSide ?ks Right = Some br"
      "\<lparr>bl_angle = bodyLineAngle f, bl_confidence = bodyLineConfidence f\<rparr>
         = (if bl_confidence bl > bl_confidence br then bl else br)"
      by blast
    have "bl = \<lparr>bl_angle = 0, bl_confidence = 0\<rparr>"
      using calculateBodyLineForSide_hidden [OF s(1)] l by simp
    moreover have "br = \<lparr>bl_angle = 0, bl_confidence = 0\<rparr>"
      using calculateBodyLineForSide_hidden [OF s(2)] r by simp
    ultimately show ?thesis using s(3) by simp
  qed
  have hv: "hasMinimumVisibility (visibility f)
        = (11 \<le> length (filter (isVisibleName ?ks) allKeypointNames))"
    using calculateVisibility_overall [OF wt buildFeatures_SomeD(6) [OF f]]
    by auto
  show ?thesis
    apply (rule exI [of _ f])
    apply (rule exI [of _ "this\<lparr>previousFeatures := Some f\<rparr>"])
    apply (intro conjI)
    subgoal by (rule res)
    subgoal using lhip by blast
    subgoal using rhip by blast
    subgoal using lsh by blast
    subgoal using rsh by blast
    subgoal using lel by blast
    subgoal using rel by blast
    subgoal using nk by blast
    subgoal using bl by blast
    subgoal by (rule hv)
    done
qed

theorem unsmoothed_angle_zero_when_hidden_witness:
  "wellTyped (keypoints poseKneeHidden)
   \<and> previousFeatures (constructor None) = None
   \<and> \<not> isVisibleName (keypoints poseKneeHidden) left_knee
   \<and> (\<exists>f this'. calculateFeatures (constructor None) 1100 1100 poseKneeHidden
                    = (Success f 1100, this')
        \<and> leftHip (angles f) = 0 \<and> leftKnee (angles f) = 0
        \<and> hasMinimumVisibility (visibility f))"
proof -
  have wt: "wellTyped (keypoints poseKneeHidden)"
    by (simp add: poseKneeHidden_def wellTyped_mkPose)
  have p: "previousFeatures (constructor None) = None"
    by (simp add: constructor_def Let_def)
  have n: "length (filter (isVisibleName (keypoints poseKneeHidden)) allKeypointNames) = 20"
    by (simp add: poseKneeHidden_vis allKeypointNames_def)
  from unsmoothed_angle_zero_when_hidden [OF wt disjI1 [OF p], of 1100 1100] obtain f this' where
    "calculateFeatures (constructor None) 1100 1100 poseKneeHidden = (Success f 1100, this')"
    "\<not> (isVisibleName (keypoints poseKneeHidden) left_hip
          \<and> isVisibleName (keypoints poseKneeHidden) left_knee
           \<and> isVisibleName (keypoints poseKneeHidden) left_ankle)
         \<longrightarrow> leftHip (angles f) = 0 \<and> leftKnee (angles f) = 0"
    "hasMinimumVisibility (visibility f)
        = (11 \<le> length (filter (isVisibleName (keypoints poseKneeHidden)) allKeypointNames))"
    by blast
  with wt p n show ?thesis by (auto simp: poseKneeHidden_vis)
qed

section \<open>Totality\<close>

text \<open>
  Claim C2. For every pose that has the type \<open>Pose\<close> (all 21 keypoints present, whatever
  their confidence, also all of them 0), \<open>calculateFeatures\<close> returns
  \<open>success: true\<close>: no step of the \<open>try\<close> block throws, so the \<open>catch\<close> branch is not
  taken. Every angle helper, and the body-line helper of one side, returns a value, and
  that value is the neutral 0 when one of the keypoints it checks has confidence below
  0.6 (for the neck: when the more confident ear, shoulder or hip is below 0.6, that is,
  when both of a pair are).
\<close>

theorem calculateFeatures_never_fails:
  assumes wt: "wellTyped (keypoints pose)"
  shows "(\<exists>f this'. calculateFeatures this now done pose = (Success f done, this'))
    \<and> (\<forall>s. \<exists>v. calculateHipAngle (keypoints pose) s = Some v
          \<and> (\<not> (isVisibleName (keypoints pose) (side_hip s)
                  \<and> isVisibleName (keypoints pose) (side_knee s)
                  \<and> isVisibleName (keypoints pose) (side_ankle s)) \<longrightarrow> v = 0))
    \<and> (\<forall>s. \<exists>v. calculateKneeAngle (keypoints pose) s = Some v
          \<and> (\<not> (isVisibleName (keypoints pose) (side_hip s)
                  \<and> isVisibleName (keypoints pose) (side_knee s)
                  \<and> isVisibleName (keypoints pose) (side_ankle s)) \<longrightarrow> v = 0))
    \<and> (\<forall>s. \<exists>v. calculateShoulderAngle (keypoints pose) s = Some v
          \<and> (\<not> (isVisibleName (keypoints pose) (side_hip s)
                  \<and> isVisibleName (keypoints pose) (side_shoulder s)
                  \<and> isVisibleName (keypoints pose) (side_elbow s)) \<longrightarrow> v = 0))
    \<and> (\<forall>s. \<exists>v. calculateElbowAngle (keypoints pose) s = Some v
          \<and> (\<not> (isVisibleName (keypoints pose) (side_shoulder s)
                  \<and> isVisibleName (keypoints pose) (side_elbow s)
                  \<and> isVisibleName (keypoints pose) (side_wrist s)) \<longrightarrow> v = 0))
    \<and> (\<exists>v. calculateNeckAngle (keypoints pose) = Some v
          \<and> ((\<not> isVisibleName (keypoints pose) left_ear
                 \<and> \<not> isVisibleName (keypoints pose) right_ear)
              \<or> (\<not> isVisibleName (keypoints pose) left_shoulder
                 \<and> \<not> isVisibleName (keypoints pose) right_shoulder)
              \<or> (\<not> isVisibleName (keypoints pose) left_hip
                 \<and> \<not> isVisibleName (keypoints pose) right_hip) \<longrightarrow> v = 0))
    \<and> (\<forall>s. \<exists>b. calculateBodyLineForSide (keypoints pose) s = Some b
          \<and> (\<not> (isVisibleName (keypoints pose) (side_shoulder s)
                  \<and> isVisibleName (keypoints pose) (side_hip s)
                  \<and> isVisibleName (keypoints pose) (side_ankle s))
               \<longrightarrow> b = \<lparr>bl_angle = 0, bl_confidence = 0\<rparr>))"
proof -
  let ?ks = "keypoints pose"
  from wellTyped_fun [OF wt] obtain kp where ks: "?ks = (\<lambda>n. Some (kp n))" by blast
  have total: "\<exists>f this'. calculateFeatures this now done pose = (Success f done, this')"
    using tryCalculate_total [OF wt, of this now]
    by (auto simp: calculateFeatures_def)
  have hip: "\<exists>v. calculateHipAngle ?ks s = Some v
          \<and> (\<not> (isVisibleName ?ks (side_hip s) \<and> isVisibleName ?ks (side_knee s)
                  \<and> isVisibleName ?ks (side_ankle s)) \<longrightarrow> v = 0)" for s
  proof -
    obtain v where v: "calculateHipAngle ?ks s = Some v"
      by (simp add: ks calculateHipAngle_Some)
    with calculateHipAngle_hidden [OF v] show ?thesis by blast
  qed
  have knee: "\<exists>v. calculateKneeAngle ?ks s = Some v
          \<and> (\<not> (isVisibleName ?ks (side_hip s) \<and> isVisibleName ?ks (side_knee s)
                  \<and> isVisibleName ?ks (side_ankle s)) \<longrightarrow> v = 0)" for s
  proof -
    obtain v where v: "calculateKneeAngle ?ks s = Some v"
      by (simp add: ks calculateKneeAngle_Some)
    with calculateKneeAngle_hidden [OF v] show ?thesis by blast
  qed
  have shoulder: "\<exists>v. calculateShoulderAngle ?ks s = Some v
          \<and> (\<not> (isVisibleName ?ks (side_hip s) \<and> isVisibleName ?ks (side_shoulder s)
                  \<and> isVisibleName ?ks (side_elbow s)) \<longrightarrow> v = 0)" for s
  proof -
    obtain v where v: "calculateShoulderAngle ?ks s = Some v"
      by (simp add: ks calculateShoulderAngle_Some)
    with calculateShoulderAngle_hidden [OF v] show ?thesis by blast
  qed
  have elbow: "\<exists>v. calculateElbowAngle ?ks s = Some v
          \<and> (\<not> (isVisibleName ?ks (side_shoulder s) \<and> isVisibleName ?ks (side_elbow s)
                  \<and> isVisibleName ?ks (side_wrist s)) \<longrightarrow> v = 0)" for s
  proof -
    obtain v where v: "calculateElbowAngle ?ks s = Some v"
      by (simp add: ks calculateElbowAngle_Some)
    with calculateElbowAngle_hidden [OF v] show ?thesis by blast
  qed
  have neck: "\<exists>v. calculateNeckAngle ?ks = Some v
          \<and> ((\<not> isVisibleName ?ks left_ear \<and> \<not> isVisibleName ?ks right_ear)
              \<or> (\<not> isVisibleName ?ks left_shoulder \<and> \<not> isVisibleName ?ks right_shoulder)
              \<or> (\<not> isVisibleName ?ks left_hip \<and> \<not> isVisibleName ?ks right_hip)
              \<longrightarrow> v = 0)"
  proof -
    obtain v where v: "calculateNeckAngle ?ks = Some v"
      by (simp add: ks calculateNeckAngle_Some Let_def)
    with calculateNeckAngle_hidden [OF v] show ?thesis by blast
  qed
  have line: "\<exists>b. calculateBodyLineForSide ?ks s = Some b
          \<and> (\<not> (isVisibleName ?ks (side_shoulder s) \<and> isVisibleName ?ks (side_hip s)
                  \<and> isVisibleName ?ks (side_ankle s))
               \<longrightarrow> b = \<lparr>bl_angle = 0, bl_confidence = 0\<rparr>)" for s
  proof -
    obtain b where b: "calculateBodyLineForSide ?ks s = Some b"
      by (simp add: ks calculateBodyLineForSide_Some)
    with calculateBodyLineForSide_hidden [OF b] show ?thesis by blast
  qed
  from total hip knee shoulder elbow neck line show ?thesis by blast
qed

theorem calculateFeatures_never_fails_witness:
  "wellTyped (keypoints poseAllHidden)
   \<and> (\<exists>f this'. calculateFeatures (constructor None) 1000 1001 poseAllHidden
                  = (Success f 1001, this'))
   \<and> calculateHipAngle (keypoints poseAllHidden) Left = Some 0
   \<and> calculateKneeAngle (keypoints poseAllHidden) Right = Some 0
   \<and> calculateShoulderAngle (keypoints poseAllHidden) Left = Some 0
   \<and> calculateElbowAngle (keypoints poseAllHidden) Right = Some 0
   \<and> calculateNeckAngle (keypoints poseAllHidden) = Some 0
   \<and> calculateBodyLineForSide (keypoints poseAllHidden) Left
       = Some \<lparr>bl_angle = 0, bl_confidence = 0\<rparr>"
proof -
  have wt: "wellTyped (keypoints poseAllHidden)"
    by (simp add: poseAllHidden_def wellTyped_mkPose)
  from calculateFeatures_never_fails [OF wt, of "constructor None" 1000 1001] poseAllHidden_hidden wt
  show ?thesis by metis
qed

text \<open>
  The hypothesis on the keys is needed: on an object without keys the first angle helper
  throws, and \<open>calculateFeatures\<close> answers \<open>success: false\<close> and keeps its state.
\<close>

lemma catch_branch_taken_without_keys:
  "calculateFeatures (constructor None) 1000 1001 poseNoKeys =
     (Failure \<lparr>err_type = ''pose_estimation_failed'', err_timestamp = 1001,
               recoverable = True\<rparr> 1001,
      constructor None)"
  by (simp add: calculateFeatures_def tryCalculate_def buildFeatures_def poseNoKeys_def
      calculateJointAngles_def calculateHipAngle_def Let_def)

section \<open>The angle between two vectors\<close>

text \<open>
  Claim C3. For the two vectors of a three-point angle, \<open>calculateAngleBetweenVectors\<close>
  returns 0 when one of them has magnitude zero (that is, is the zero vector) and
  otherwise the inverse cosine, in degrees, of the dot product over the product of the
  magnitudes, clamped to \<open>[-1, 1]\<close>; the result always lies in \<open>[0, 180]\<close>.
\<close>

theorem calculateAngleBetweenVectors_formula_and_range:
  fixes v1 v2 :: "real \<times> real"
  shows "calculateAngleBetweenVectors v1 v2 =
           (if sqrt (fst v1 * fst v1 + snd v1 * snd v1) = 0
               \<or> sqrt (fst v2 * fst v2 + snd v2 * snd v2) = 0
            then 0
            else arccos (max (-1) (min 1
                   ((fst v1 * fst v2 + snd v1 * snd v2)
                     / (sqrt (fst v1 * fst v1 + snd v1 * snd v1)
                        * sqrt (fst v2 * fst v2 + snd v2 * snd v2)))))
                 * (180 / pi))
       \<and> (v1 = (0, 0) \<or> v2 = (0, 0) \<longrightarrow> calculateAngleBetweenVectors v1 v2 = 0)
       \<and> 0 \<le> calculateAngleBetweenVectors v1 v2
       \<and> calculateAngleBetweenVectors v1 v2 \<le> 180"
proof -
  have formula: "calculateAngleBetweenVectors v1 v2 =
           (if sqrt (fst v1 * fst v1 + snd v1 * snd v1) = 0
               \<or> sqrt (fst v2 * fst v2 + snd v2 * snd v2) = 0
            then 0
            else arccos (max (-1) (min 1
                   ((fst v1 * fst v2 + snd v1 * snd v2)
                     / (sqrt (fst v1 * fst v1 + snd v1 * snd v1)
                        * sqrt (fst v2 * fst v2 + snd v2 * snd v2)))))
                 * (180 / pi))"
    by (simp add: calculateAngleBetweenVectors_def Let_def)
  have zero: "calculateAngleBetweenVectors v1 v2 = 0" if "v1 = (0, 0) \<or> v2 = (0, 0)"
    using that by (auto simp: calculateAngleBetweenVectors_def Let_def)
  have range: "0 \<le> calculateAngleBetweenVectors v1 v2
      \<and> calculateAngleBetweenVectors v1 v2 \<le> 180"
    unfolding calculateAngleBetweenVectors_def Let_def
    using arccos_degrees_range by auto
  from formula zero range show ?thesis by blast
qed

theorem calculateAngleBetweenVectors_witness:
  "calculateAngleBetweenVectors (0, 0) (1, 0) = 0
   \<and> calculateAngleBetweenVectors (0, 1) (1, 0) = 90
   \<and> calculateAngleBetweenVectors (3, 4) (-3, -4) = 180"
  using calculateAngleBetweenVectors_formula_and_range [of "(0, 0)" "(1, 0)"]
    calculateAngleBetweenVectors_formula_and_range [of "(0, 1)" "(1, 0)"]
    calculateAngleBetweenVectors_formula_and_range [of "(3, 4)" "(-3, -4)"]
  by simp

section \<open>Velocity\<close>

text \<open>
  Claim C4, as the specification states it, fails on the code. The engine that holds
  the Features of the first frame (timestamp 1000, body-line angle 0, hip height 1/2)
  is called, with the clock at 1100, on \<open>poseTie\<close>, whose timestamp is 1000 again. The
  returned Features carries the timestamp 1000, so the time between the current and the
  stored Features is 0 and the specification reports velocity 0. The code reports 900
  for the body line and -5 for the hip height: it divides by the clock reading minus
  the stored timestamp, 0.1 s, and never reads the timestamp of the current pose. The
  body-line velocity 900 is moreover the one of the angle measured on the pose, 90, and
  not of the returned body-line angle, 9.
\<close>

lemma poseTie_angles:
  "calculateJointAngles (keypoints poseTie) =
    Some \<lparr>leftHip = 0, rightHip = 0, leftKnee = 0, rightKnee = 0,
          leftShoulder = 0, rightShoulder = 0, leftElbow = 0, rightElbow = 0, neck = 0\<rparr>"
  by (simp add: poseTie_def mkPose_def kpt_def helper_defs Let_def)

lemma poseTie_line:
  "calculateBodyLineStraightness (keypoints poseTie)
     = Some \<lparr>bl_angle = 90, bl_confidence = 23/30\<rparr>"
  by (simp add: poseTie_def mkPose_def kpt_def helper_defs Let_def)

lemma poseTie_positions:
  "calculateBodyPositions (keypoints poseTie)
     = Some \<lparr>hipHeight = 0, shoulderHeight = 0, headHeight = 0,
             leftAnkleHeight = 1, rightAnkleHeight = 0\<rparr>"
  by (simp add: poseTie_def mkPose_def kpt_def helper_defs Let_def)

lemma poseTie_visibility:
  "calculateVisibility (keypoints poseTie)
     = Some \<lparr>overall = 1,
             criticalPoints = \<lparr>shoulders = 3/4, hips = 3/4, ankles = 4/5\<rparr>,
             hasMinimumVisibility = True\<rparr>"
  by (simp add: poseTie_def mkPose_def kpt_def vis_defs Let_def)

lemma repeatedFrame_eq:
  "calculateFeatures engineAfterFirstFrame 1100 1100 poseTie =
     (Success repeatedFrameFeatures 1100,
      engineAfterFirstFrame\<lparr>previousFeatures := Some repeatedFrameFeatures\<rparr>)"
  by (simp add: engineAfterFirstFrame_eq engine_defs poseTie_angles poseTie_line
      poseTie_positions poseTie_visibility Let_def firstFrameFeatures_def
      repeatedFrameFeatures_def)
    (simp add: poseTie_def mkPose_def)

theorem repeated_timestamp_nonzero_velocity:
  "previousFeatures engineAfterFirstFrame = Some firstFrameFeatures
   \<and> fst (calculateFeatures engineAfterFirstFrame 1100 1100 poseTie)
       = Success repeatedFrameFeatures 1100
   \<and> spec_elapsedSeconds repeatedFrameFeatures firstFrameFeatures = 0
   \<and> velocity repeatedFrameFeatures
       = \<lparr>vel_bodyLineAngle = 900, vel_hipHeight = -5, vel_shoulderHeight = 0\<rparr>
   \<and> bodyLineAngle repeatedFrameFeatures = 9
   \<and> bodyLineAngle firstFrameFeatures = 0"
proof -
  have prev: "previousFeatures engineAfterFirstFrame = Some firstFrameFeatures"
    by (simp add: engineAfterFirstFrame_eq)
  have res: "fst (calculateFeatures engineAfterFirstFrame 1100 1100 poseTie)
       = Success repeatedFrameFeatures 1100"
    by (simp add: repeatedFrame_eq)
  have rest: "spec_elapsedSeconds repeatedFrameFeatures firstFrameFeatures = 0"
    "velocity repeatedFrameFeatures
       = \<lparr>vel_bodyLineAngle = 900, vel_hipHeight = -5, vel_shoulderHeight = 0\<rparr>"
    "bodyLineAngle repeatedFrameFeatures = 9"
    "bodyLineAngle firstFrameFeatures = 0"
    by (simp_all add: spec_elapsedSeconds_def repeatedFrameFeatures_def
        firstFrameFeatures_def)
  from prev res rest show ?thesis by blast
qed

text \<open>
  Claim C4, amended. When a previous Features is stored, the elapsed time is the clock
  reading \<open>Date.now()\<close> of the current call minus the timestamp of the stored Features,
  in seconds; the timestamp of the current pose does not enter. When that time is
  positive, each reported velocity is the current value minus the stored one, over it:
  for the body line the current value is the angle measured on the current pose (the
  result of \<open>calculateBodyLineStraightness\<close>, before the smoothing step), for the hip
  and shoulder heights the positions of the returned Features. When that time is zero
  or negative every velocity is 0.
\<close>

theorem velocity_is_difference_over_elapsed:
  assumes wt: "wellTyped (keypoints pose)"
    and prev: "previousFeatures this = Some prev"
  shows "\<exists>f this' bl. calculateFeatures this now done pose = (Success f done, this')
     \<and> calculateBodyLineStraightness (keypoints pose) = Some bl
     \<and> calculateBodyPositions (keypoints pose) = Some (positions f)
     \<and> (0 < (now - timestamp prev) / 1000 \<longrightarrow>
          vel_bodyLineAngle (velocity f)
            = (bl_angle bl - bodyLineAngle prev) / ((now - timestamp prev) / 1000)
        \<and> vel_hipHeight (velocity f)
            = (hipHeight (positions f) - hipHeight (positions prev))
                / ((now - timestamp prev) / 1000)
        \<and> vel_shoulderHeight (velocity f)
            = (shoulderHeight (positions f) - shoulderHeight (positions prev))
                / ((now - timestamp prev) / 1000))
     \<and> ((now - timestamp prev) / 1000 \<le> 0 \<longrightarrow>
          velocity f = \<lparr>vel_bodyLineAngle = 0, vel_hipHeight = 0, vel_shoulderHeight = 0\<rparr>)"
proof -
  from buildFeatures_total [OF wt, of this now] obtain raw
    where raw: "buildFeatures this now pose = Some raw" by blast
  note d = buildFeatures_SomeD [OF raw]
  obtain f where res: "tryCalculate this now pose = Some (f, this\<lparr>previousFeatures := Some f\<rparr>)"
    and pos: "positions f = positions raw" and vel: "velocity f = velocity raw"
  proof (cases "smoothingFactor (config this) > 0")
    case True
    show ?thesis
    proof (rule that [of "applySmoothing this raw"])
      show "tryCalculate this now pose = Some (applySmoothing this raw,
          this\<lparr>previousFeatures := Some (applySmoothing this raw)\<rparr>)"
        using True by (simp add: tryCalculate_def raw prev Let_def)
      show "positions (applySmoothing this raw) = positions raw"
        by (simp add: applySmoothing_def prev Let_def)
      show "velocity (applySmoothing this raw) = velocity raw"
        by (simp add: applySmoothing_def prev Let_def)
    qed
  next
    case False
    show ?thesis
    proof (rule that [of raw])
      show "tryCalculate this now pose = Some (raw, this\<lparr>previousFeatures := Some raw\<rparr>)"
        using False by (simp add: tryCalculate_def raw prev Let_def)
    qed simp_all
  qed
  have v: "velocity f
      = calculateVelocities this now (angles raw) (positions raw) (bodyLineAngle raw)"
    unfolding vel by (rule d(4))
  have cf: "calculateFeatures this now done pose
      = (Success f done, this\<lparr>previousFeatures := Some f\<rparr>)"
    by (simp add: calculateFeatures_def res)
  have moving: "vel_bodyLineAngle (velocity f)
            = (bodyLineAngle raw - bodyLineAngle prev) / ((now - timestamp prev) / 1000)
        \<and> vel_hipHeight (velocity f)
            = (hipHeight (positions f) - hipHeight (positions prev))
                / ((now - timestamp prev) / 1000)
        \<and> vel_shoulderHeight (velocity f)
            = (shoulderHeight (positions f) - shoulderHeight (positions prev))
                / ((now - timestamp prev) / 1000)"
    if "0 < (now - timestamp prev) / 1000"
    using that unfolding v pos calculateVelocities_def Let_def prev by simp
  have still: "velocity f = \<lparr>vel_bodyLineAngle = 0, vel_hipHeight = 0, vel_shoulderHeight = 0\<rparr>"
    if "(now - timestamp prev) / 1000 \<le> 0"
    using that unfolding v calculateVelocities_def Let_def prev by simp
  show ?thesis
    apply (rule exI [of _ f])
    apply (rule exI [of _ "this\<lparr>previousFeatures := Some f\<rparr>"])
    apply (rule exI [of _ "\<lparr>bl_angle = bodyLineAngle raw, bl_confidence = bodyLineConfidence raw\<rparr>"])
    apply (intro conjI)
    subgoal by (rule cf)
    subgoal by (rule d(2))
    subgoal unfolding pos by (rule d(3))
    subgoal using moving by simp
    subgoal using still by simp
    done
qed

lemma poseAllHidden_line:
  "calculateBodyLineStraightness (keypoints poseAllHidden)
     = Some \<lparr>bl_angle = 0, bl_confidence = 0\<rparr>"
  by (simp add: poseAllHidden_def mkPose_def helper_defs Let_def)

lemma poseAllHidden_positions:
  "calculateBodyPositions (keypoints poseAllHidden)
     = Some \<lparr>hipHeight = 0, shoulderHeight = 0, headHeight = 0,
             leftAnkleHeight = 0, rightAnkleHeight = 0\<rparr>"
  by (simp add: poseAllHidden_def mkPose_def helper_defs Let_def)

theorem velocity_is_difference_over_elapsed_witness:
  "wellTyped (keypoints poseAllHidden)
   \<and> previousFeatures engineAfterFirstFrame = Some firstFrameFeatures
   \<and> (\<exists>f this'. calculateFeatures engineAfterFirstFrame 1100 1100 poseAllHidden
                    = (Success f 1100, this')
         \<and> vel_bodyLineAngle (velocity f) = 0
         \<and> vel_hipHeight (velocity f) = -5
         \<and> vel_shoulderHeight (velocity f) = 0)
   \<and> (\<exists>f this'. calculateFeatures engineAfterFirstFrame 1000 1000 poseAllHidden
                    = (Success f 1000, this')
         \<and> velocity f = \<lparr>vel_bodyLineAngle = 0, vel_hipHeight = 0, vel_shoulderHeight = 0\<rparr>)"
proof -
  have wt: "wellTyped (keypoints poseAllHidden)"
    by (simp add: poseAllHidden_def wellTyped_mkPose)
  have prev: "previousFeatures engineAfterFirstFrame = Some firstFrameFeatures"
    by (simp add: engineAfterFirstFrame_eq)
  have moving: "\<exists>f this'. calculateFeatures engineAfterFirstFrame 1100 1100 poseAllHidden
                    = (Success f 1100, this')
         \<and> vel_bodyLineAngle (velocity f) = 0
         \<and> vel_hipHeight (velocity f) = -5
         \<and> vel_shoulderHeight (velocity f) = 0"
  proof -
    from velocity_is_difference_over_elapsed [OF wt prev, of 1100 1100]
    obtain f this' bl where
      r: "calculateFeatures engineAfterFirstFrame 1100 1100 poseAllHidden
            = (Success f 1100, this')"
      and b: "calculateBodyLineStraightness (keypoints poseAllHidden) = Some bl"
      and p: "calculateBodyPositions (keypoints poseAllHidden) = Some (positions f)"
      and v: "0 < (1100 - timestamp firstFrameFeatures) / 1000 \<longrightarrow>
          vel_bodyLineAngle (velocity f)
            = (bl_angle bl - bodyLineAngle firstFrameFeatures)
                / ((1100 - timestamp firstFrameFeatures) / 1000)
        \<and> vel_hipHeight (velocity f)
            = (hipHeight (positions f) - hipHeight (positions firstFrameFeatures))
                / ((1100 - timestamp firstFrameFeatures) / 1000)
        \<and> vel_shoulderHeight (velocity f)
            = (shoulderHeight (positions f) - shoulderHeight (positions firstFrameFeatures))
                / ((1100 - timestamp firstFrameFeatures) / 1000)"
      by blast
    from b have bl: "bl = \<lparr>bl_angle = 0, bl_confidence = 0\<rparr>"
      by (simp add: poseAllHidden_line)
    from p have pf: "positions f = \<lparr>hipHeight = 0, shoulderHeight = 0, headHeight = 0,
             leftAnkleHeight = 0, rightAnkleHeight = 0\<rparr>"
      by (simp add: poseAllHidden_positions)
    from v have "vel_bodyLineAngle (velocity f) = 0 \<and> vel_hipHeight (velocity f) = -5
         \<and> vel_shoulderHeight (velocity f) = 0"
      unfolding bl pf by (simp add: firstFrameFeatures_def)
    with r show ?thesis by blast
  qed
  have still: "\<exists>f this'. calculateFeatures engineAfterFirstFrame 1000 1000 poseAllHidden
                    = (Success f 1000, this')
         \<and> velocity f = \<lparr>vel_bodyLineAngle = 0, vel_hipHeight = 0, vel_shoulderHeight = 0\<rparr>"
    using velocity_is_difference_over_elapsed [OF wt prev, of 1000 1000]
    by (auto simp: firstFrameFeatures_def)
  from wt prev moving still show ?thesis by blast
qed

section \<open>Stability\<close>

text \<open>
  Claim C5. For a positive motion threshold and every velocity triple: \<open>isStable\<close> holds
  exactly when no absolute velocity exceeds the threshold, \<open>motionGate\<close> is its negation,
  and \<open>stabilityScore\<close> is \<open>clamp(1 - maxVelocity / (2 * threshold), 0, 1)\<close> with
  \<open>maxVelocity\<close> the largest of the three absolute velocities.
\<close>

theorem stability_verdict:
  assumes thr: "0 < motionThreshold (config this)"
  shows "isStable (calculateStability this v)
           = (\<not> (\<bar>vel_bodyLineAngle v\<bar> > motionThreshold (config this)
                 \<or> \<bar>vel_hipHeight v\<bar> > motionThreshold (config this)
                 \<or> \<bar>vel_shoulderHeight v\<bar> > motionThreshold (config this)))
       \<and> motionGate (calculateStability this v) = (\<not> isStable (calculateStability this v))
       \<and> stabilityScore (calculateStability this v)
           = clamp (1 - Max {\<bar>vel_bodyLineAngle v\<bar>, \<bar>vel_hipHeight v\<bar>, \<bar>vel_shoulderHeight v\<bar>}
                        / (2 * motionThreshold (config this))) 0 1"
proof -
  let ?t = "motionThreshold (config this)"
  let ?m = "max (max \<bar>vel_bodyLineAngle v\<bar> \<bar>vel_hipHeight v\<bar>) \<bar>vel_shoulderHeight v\<bar>"
  have m: "Max {\<bar>vel_bodyLineAngle v\<bar>, \<bar>vel_hipHeight v\<bar>, \<bar>vel_shoulderHeight v\<bar>} = ?m"
    by (simp add: max.commute max.left_commute)
  have stable: "isStable (calculateStability this v)
           = (\<not> (\<bar>vel_bodyLineAngle v\<bar> > ?t \<or> \<bar>vel_hipHeight v\<bar> > ?t
                 \<or> \<bar>vel_shoulderHeight v\<bar> > ?t))"
    by (simp add: calculateStability_def Let_def)
  have gate: "motionGate (calculateStability this v) = (\<not> isStable (calculateStability this v))"
    by (simp add: calculateStability_def Let_def)
  have score: "stabilityScore (calculateStability this v) = max 0 (1 - ?m / (?t * 2))"
    by (simp add: calculateStability_def Let_def)
  have "0 \<le> ?m" by simp
  with thr have "0 \<le> ?m / (2 * ?t)" by simp
  then have "1 - ?m / (2 * ?t) \<le> 1" by simp
  then have "clamp (1 - ?m / (2 * ?t)) 0 1 = max 0 (1 - ?m / (2 * ?t))"
    by (simp add: clamp_def)
  also have "\<dots> = max 0 (1 - ?m / (?t * 2))"
    by (simp only: mult.commute [of 2 ?t])
  finally have c: "clamp (1 - ?m / (2 * ?t)) 0 1 = max 0 (1 - ?m / (?t * 2))" .
  have "stabilityScore (calculateStability this v) = clamp (1 - ?m / (2 * ?t)) 0 1"
    unfolding c by (rule score)
  with stable gate show ?thesis unfolding m by blast
qed

theorem stability_verdict_witness:
  "0 < motionThreshold (config (constructor None))
   \<and> calculateStability (constructor None) velSlow
       = \<lparr>isStable = True, stabilityScore = 7/10, motionGate = False\<rparr>
   \<and> calculateStability (constructor None) velFast
       = \<lparr>isStable = False, stabilityScore = 0, motionGate = True\<rparr>"
proof -
  have t: "motionThreshold (config (constructor None)) = 5"
    by (simp add: constructor_None defaultConfig_def)
  then have pos: "0 < motionThreshold (config (constructor None))" by simp
  have "calculateStability (constructor None) velSlow
       = \<lparr>isStable = True, stabilityScore = 7/10, motionGate = False\<rparr>"
    using stability_verdict [OF pos, of velSlow] by (simp add: t velSlow_def clamp_def)
  moreover have "calculateStability (constructor None) velFast
       = \<lparr>isStable = False, stabilityScore = 0, motionGate = True\<rparr>"
    using stability_verdict [OF pos, of velFast] by (simp add: t velFast_def clamp_def)
  ultimately show ?thesis using pos by blast
qed

section \<open>The side of the body line\<close>

text \<open>
  Claim C6, as the specification states it, fails on the code. In \<open>poseTie\<close> both sides
  are visible with the same mean confidence 23/30 and the left ankle is the more
  confident one (0.9 against 0.7), so the specification picks the left side, whose
  line is vertical (0 degrees). The code returns the right side's 90 degrees.
\<close>

theorem tie_goes_to_right_side:
  "spec_meanConfidence (keypoints poseTie) Left = spec_meanConfidence (keypoints poseTie) Right
   \<and> confidenceOrZero (keypoints poseTie) left_ankle
       > confidenceOrZero (keypoints poseTie) right_ankle
   \<and> spec_bodyLineSide (keypoints poseTie) = Left
   \<and> calculateBodyLineForSide (keypoints poseTie) Left
       = Some \<lparr>bl_angle = 0, bl_confidence = 23/30\<rparr>
   \<and> calculateBodyLineForSide (keypoints poseTie) Right
       = Some \<lparr>bl_angle = 90, bl_confidence = 23/30\<rparr>
   \<and> calculateBodyLineStraightness (keypoints poseTie)
       = Some \<lparr>bl_angle = 90, bl_confidence = 23/30\<rparr>"
  by (simp add: poseTie_def mkPose_def kpt_def spec_bodyLineSide_def spec_meanConfidence_def
      confidenceOrZero_def calculateBodyLineStraightness_def calculateBodyLineForSide_def
      atan2_def Let_def)

text \<open>
  Claim C6, amended. Each side has a body line: when its shoulder, hip and ankle all
  have confidence 0.6 or more, the angle is \<open>atan2(dx, dy)\<close> in degrees between
  shoulder and ankle and the confidence is the mean of the three confidences; otherwise
  angle and confidence are both 0. The left side is returned when its confidence is
  strictly higher than the right side's; otherwise, also on a tie, the right side.
\<close>

theorem body_line_side_choice:
  assumes "ks left_shoulder = Some ls" "ks left_hip = Some lh" "ks left_ankle = Some la"
    and "ks right_shoulder = Some rs" "ks right_hip = Some rh" "ks right_ankle = Some ra"
  shows "\<exists>l r. calculateBodyLineForSide ks Left = Some l
     \<and> calculateBodyLineForSide ks Right = Some r
     \<and> ((confidence ls \<ge> 6/10 \<and> confidence lh \<ge> 6/10 \<and> confidence la \<ge> 6/10) \<longrightarrow>
           l = \<lparr>bl_angle = atan2 (kp_x la - kp_x ls) (kp_y la - kp_y ls) * (180 / pi),
                 bl_confidence = (confidence ls + confidence lh + confidence la) / 3\<rparr>)
     \<and> (\<not> (confidence ls \<ge> 6/10 \<and> confidence lh \<ge> 6/10 \<and> confidence la \<ge> 6/10) \<longrightarrow>
           l = \<lparr>bl_angle = 0, bl_confidence = 0\<rparr>)
     \<and> ((confidence rs \<ge> 6/10 \<and> confidence rh \<ge> 6/10 \<and> confidence ra \<ge> 6/10) \<longrightarrow>
           r = \<lparr>bl_angle = atan2 (kp_x ra - kp_x rs) (kp_y ra - kp_y rs) * (180 / pi),
                 bl_confidence = (confidence rs + confidence rh + confidence ra) / 3\<rparr>)
     \<and> (\<not> (confidence rs \<ge> 6/10 \<and> confidence rh \<ge> 6/10 \<and> confidence ra \<ge> 6/10) \<longrightarrow>
           r = \<lparr>bl_angle = 0, bl_confidence = 0\<rparr>)
     \<and> (bl_confidence l > bl_confidence r \<longrightarrow> calculateBodyLineStraightness ks = Some l)
     \<and> (bl_confidence l \<le> bl_confidence r \<longrightarrow> calculateBodyLineStraightness ks = Some r)"
proof -
  have l: "calculateBodyLineForSide ks Left =
     Some (if confidence ls \<ge> 6/10 \<and> confidence lh \<ge> 6/10 \<and> confidence la \<ge> 6/10
           then \<lparr>bl_angle = atan2 (kp_x la - kp_x ls) (kp_y la - kp_y ls) * (180 / pi),
                 bl_confidence = (confidence ls + confidence lh + confidence la) / 3\<rparr>
           else \<lparr>bl_angle = 0, bl_confidence = 0\<rparr>)" (is "_ = Some ?l")
    by (rule calculateBodyLineForSide_Some) (simp_all add: assms)
  have r: "calculateBodyLineForSide ks Right =
     Some (if confidence rs \<ge> 6/10 \<and> confidence rh \<ge> 6/10 \<and> confidence ra \<ge> 6/10
           then \<lparr>bl_angle = atan2 (kp_x ra - kp_x rs) (kp_y ra - kp_y rs) * (180 / pi),
                 bl_confidence = (confidence rs + confidence rh + confidence ra) / 3\<rparr>
           else \<lparr>bl_angle = 0, bl_confidence = 0\<rparr>)" (is "_ = Some ?r")
    by (rule calculateBodyLineForSide_Some) (simp_all add: assms)
  have pick: "calculateBodyLineStraightness ks
      = Some (if bl_confidence ?l > bl_confidence ?r then ?l else ?r)"
    unfolding calculateBodyLineStraightness_def l r by simp
  show ?thesis
    apply (rule exI [of _ ?l])
    apply (rule exI [of _ ?r])
    apply (intro conjI)
    subgoal by (rule l)
    subgoal by (rule r)
    subgoal by simp
    subgoal by simp
    subgoal by simp
    subgoal by simp
    subgoal unfolding pick by simp
    subgoal unfolding pick by simp
    done
qed

theorem body_line_side_choice_witness:
  "calculateBodyLineStraightness (keypoints poseTie)
     = Some \<lparr>bl_angle = 90, bl_confidence = 23/30\<rparr>
   \<and> calculateBodyLineStraightness (keypoints poseLeftOnly)
     = Some \<lparr>bl_angle = 0, bl_confidence = 23/30\<rparr>"
proof -
  have tie: "calculateBodyLineStraightness (keypoints poseTie)
     = Some \<lparr>bl_angle = 90, bl_confidence = 23/30\<rparr>"
    using body_line_side_choice [of "keypoints poseTie"
        "kpt 0 0 (7/10)" "kpt 0 0 (7/10)" "kpt 0 1 (9/10)"
        "kpt 0 0 (8/10)" "kpt 0 0 (8/10)" "kpt 1 0 (7/10)"]
    by (auto simp: poseTie_def mkPose_def kpt_def atan2_def)
  have left: "calculateBodyLineStraightness (keypoints poseLeftOnly)
     = Some \<lparr>bl_angle = 0, bl_confidence = 23/30\<rparr>"
    using body_line_side_choice [of "keypoints poseLeftOnly"
        "kpt 0 0 (7/10)" "kpt 0 0 (7/10)" "kpt 0 1 (9/10)"
        "kpt 0 0 (8/10)" "kpt 0 0 (8/10)" "kpt 1 0 (5/10)"]
    by (auto simp: poseLeftOnly_def mkPose_def kpt_def atan2_def)
  from tie left show ?thesis by blast
qed

section \<open>Smoothing\<close>

text \<open>
  Claim C7. In an engine made by the constructor and changed only by its methods, with
  a positive smoothing factor \<open>\<alpha>\<close> (0.1 by default) and a stored previous Features,
  the returned Features differs from the unsmoothed one (the object built before the
  smoothing step, which is also what the same engine with the factor set to 0 returns)
  in the nine joint angles and the body-line angle only: each of these is
  \<open>\<alpha> * current + (1 - \<alpha>) * previous\<close>. Body-line confidence, positions, velocity,
  stability, visibility, timestamp and frame id are the unsmoothed ones.
\<close>

theorem smoothing_frame:
  assumes wt: "wellTyped (keypoints pose)"
    and inv: "reachable this"
    and en: "0 < smoothingFactor (config this)"
    and prev: "previousFeatures this = Some prev"
  shows "\<exists>f this' raw this0.
       calculateFeatures this now done pose = (Success f done, this')
     \<and> buildFeatures this now pose = Some raw
     \<and> calculateFeatures (updateConfig this (noConfig\<lparr>p_smoothingFactor := Some 0\<rparr>))
           now done pose = (Success raw done, this0)
     \<and> leftHip (angles f)
         = smoothingFactor (config this) * leftHip (angles raw)
           + (1 - smoothingFactor (config this)) * leftHip (angles prev)
     \<and> rightHip (angles f)
         = smoothingFactor (config this) * rightHip (angles raw)
           + (1 - smoothingFactor (config this)) * rightHip (angles prev)
     \<and> leftKnee (angles f)
         = smoothingFactor (config this) * leftKnee (angles raw)
           + (1 - smoothingFactor (config this)) * leftKnee (angles prev)
     \<and> rightKnee (angles f)
         = smoothingFactor (config this) * rightKnee (angles raw)
           + (1 - smoothingFactor (config this)) * rightKnee (angles prev)
     \<and> leftShoulder (angles f)
         = smoothingFactor (config this) * leftShoulder (angles raw)
           + (1 - smoothingFactor (config this)) * leftShoulder (angles prev)
     \<and> rightShoulder (angles f)
         = smoothingFactor (config this) * rightShoulder (angles raw)
           + (1 - smoothingFactor (config this)) * rightShoulder (angles prev)
     \<and> leftElbow (angles f)
         = smoothingFactor (config this) * leftElbow (angles raw)
           + (1 - smoothingFactor (config this)) * leftElbow (angles prev)
     \<and> rightElbow (angles f)
         = smoothingFactor (config this) * rightElbow (angles raw)
           + (1 - smoothingFactor (config this)) * rightElbow (angles prev)
     \<and> neck (angles f)
         = smoothingFactor (config this) * neck (angles raw)
           + (1 - smoothingFactor (config this)) * neck (angles prev)
     \<and> bodyLineAngle f
         = smoothingFactor (config this) * bodyLineAngle raw
           + (1 - smoothingFactor (config this)) * bodyLineAngle prev
     \<and> bodyLineConfidence f = bodyLineConfidence raw
     \<and> positions f = positions raw
     \<and> velocity f = velocity raw
     \<and> stability f = stability raw
     \<and> visibility f = visibility raw
     \<and> timestamp f = timestamp raw
     \<and> frameId f = frameId raw
     \<and> smoothingFactor (config (constructor None)) = 1/10"
proof -
  let ?a = "smoothingFactor (config this)"
  let ?off = "updateConfig this (noConfig\<lparr>p_smoothingFactor := Some 0\<rparr>)"
  from buildFeatures_total [OF wt, of this now] obtain raw
    where raw: "buildFeatures this now pose = Some raw" by blast
  let ?f = "applySmoothing this raw"
  have alpha: "this_smoothingFactor this = ?a"
    by (rule reachable_sync [OF inv])
  have on: "calculateFeatures this now done pose
      = (Success ?f done, this\<lparr>previousFeatures := Some ?f\<rparr>)"
    by (simp add: calculateFeatures_def tryCalculate_smoothed [OF raw en prev])
  have off_cfg: "smoothingFactor (config ?off) = 0" "previousFeatures ?off = previousFeatures this"
    "motionThreshold (config ?off) = motionThreshold (config this)"
    by (simp_all add: updateConfig_def spreadConfig_def noConfig_def Let_def)
  have "calculateVelocities ?off = calculateVelocities this"
    by (intro ext) (simp add: calculateVelocities_def off_cfg)
  moreover have "calculateStability ?off = calculateStability this"
    by (intro ext) (simp add: calculateStability_def off_cfg)
  ultimately have raw_off: "buildFeatures ?off now pose = Some raw"
    using raw by (simp add: buildFeatures_def)
  have off: "calculateFeatures ?off now done pose
      = (Success raw done, ?off\<lparr>previousFeatures := Some raw\<rparr>)"
    by (simp add: calculateFeatures_def tryCalculate_plain [OF raw_off] off_cfg)
  have ang: "angles ?f =
      \<lparr>leftHip = ?a * leftHip (angles raw) + (1 - ?a) * leftHip (angles prev),
       rightHip = ?a * rightHip (angles raw) + (1 - ?a) * rightHip (angles prev),
       leftKnee = ?a * leftKnee (angles raw) + (1 - ?a) * leftKnee (angles prev),
       rightKnee = ?a * rightKnee (angles raw) + (1 - ?a) * rightKnee (angles prev),
       leftShoulder = ?a * leftShoulder (angles raw) + (1 - ?a) * leftShoulder (angles prev),
       rightShoulder = ?a * rightShoulder (angles raw) + (1 - ?a) * rightShoulder (angles prev),
       leftElbow = ?a * leftElbow (angles raw) + (1 - ?a) * leftElbow (angles prev),
       rightElbow = ?a * rightElbow (angles raw) + (1 - ?a) * rightElbow (angles prev),
       neck = ?a * neck (angles raw) + (1 - ?a) * neck (angles prev)\<rparr>"
    by (simp add: applySmoothing_def prev alpha smoothValue_def Let_def)
  have line: "bodyLineAngle ?f = ?a * bodyLineAngle raw + (1 - ?a) * bodyLineAngle prev"
    by (simp add: applySmoothing_def prev alpha smoothValue_def Let_def)
  show ?thesis
    apply (rule exI [of _ ?f])
    apply (rule exI [of _ "this\<lparr>previousFeatures := Some ?f\<rparr>"])
    apply (rule exI [of _ raw])
    apply (rule exI [of _ "?off\<lparr>previousFeatures := Some raw\<rparr>"])
    apply (intro conjI)
    subgoal by (rule on)
    subgoal by (rule raw)
    subgoal by (rule off)
    subgoal by (simp add: ang)
    subgoal by (simp add: ang)
    subgoal by (simp add: ang)
    subgoal by (simp add: ang)
    subgoal by (simp add: ang)
    subgoal by (simp add: ang)
    subgoal by (simp add: ang)
    subgoal by (simp add: ang)
    subgoal by (simp add: ang)
    subgoal by (rule line)
    subgoal by (rule applySmoothing_frame)
    subgoal by (rule applySmoothing_frame)
    subgoal by (rule applySmoothing_frame)
    subgoal by (rule applySmoothing_frame)
    subgoal by (rule applySmoothing_frame)
    subgoal by (rule applySmoothing_frame)
    subgoal by (rule applySmoothing_frame)
    subgoal by (simp add: constructor_None defaultConfig_def)
    done
qed

theorem smoothing_frame_witness:
  "wellTyped (keypoints poseKneeHidden)
   \<and> reachable engineAfterFirstFrame
   \<and> 0 < smoothingFactor (config engineAfterFirstFrame)
   \<and> previousFeatures engineAfterFirstFrame = Some firstFrameFeatures
   \<and> (\<exists>f this'. calculateFeatures engineAfterFirstFrame 1100 1100 poseKneeHidden
                    = (Success f 1100, this')
         \<and> leftHip (angles f) = 81 \<and> rightHip (angles f) = 0
         \<and> hipHeight (positions f) = 1/2)"
proof -
  have wt: "wellTyped (keypoints poseKneeHidden)"
    by (simp add: poseKneeHidden_def wellTyped_mkPose)
  have en: "0 < smoothingFactor (config engineAfterFirstFrame)"
    by (simp add: engineAfterFirstFrame_eq defaultConfig_def)
  have prev: "previousFeatures engineAfterFirstFrame = Some firstFrameFeatures"
    by (simp add: engineAfterFirstFrame_eq)
  from smoothing_frame [OF wt engineAfterFirstFrame_reachable en prev, of 1100 1100]
  obtain f this' raw where
    r: "calculateFeatures engineAfterFirstFrame 1100 1100 poseKneeHidden
          = (Success f 1100, this')"
    and raw: "buildFeatures engineAfterFirstFrame 1100 poseKneeHidden = Some raw"
    and l: "leftHip (angles f)
         = smoothingFactor (config engineAfterFirstFrame) * leftHip (angles raw)
           + (1 - smoothingFactor (config engineAfterFirstFrame))
             * leftHip (angles firstFrameFeatures)"
    and rh: "rightHip (angles f)
         = smoothingFactor (config engineAfterFirstFrame) * rightHip (angles raw)
           + (1 - smoothingFactor (config engineAfterFirstFrame))
             * rightHip (angles firstFrameFeatures)"
    and p: "positions f = positions raw"
    by blast
  have a: "angles raw = \<lparr>leftHip = 0, rightHip = 0, leftKnee = 0, rightKnee = 0,
          leftShoulder = 0, rightShoulder = 0, leftElbow = 0, rightElbow = 0, neck = 0\<rparr>"
    using buildFeatures_SomeD(1) [OF raw] by (simp add: poseKneeHidden_angles)
  have q: "positions raw = \<lparr>hipHeight = 1/2, shoulderHeight = 0, headHeight = 0,
             leftAnkleHeight = 0, rightAnkleHeight = 0\<rparr>"
    using buildFeatures_SomeD(3) [OF raw] by (simp add: poseKneeHidden_positions)
  have "leftHip (angles f) = 81" "rightHip (angles f) = 0" "hipHeight (positions f) = 1/2"
    unfolding l rh p a q
    by (simp_all add: engineAfterFirstFrame_eq defaultConfig_def firstFrameFeatures_def)
  with wt engineAfterFirstFrame_reachable en prev r show ?thesis by blast
qed

section \<open>Reset\<close>

text \<open>
  Claim C8. After \<open>reset()\<close> the next call reports velocity 0 for the three tracked
  scalars and applies no smoothing: its angles and body line are the ones the helpers
  measure on the pose. The returned Features is the same for any two engines with the
  same configuration, whatever they had stored before the reset and whatever the clock
  reads; it is what the engine stores next.
\<close>

theorem reset_forgets:
  assumes wt: "wellTyped (keypoints pose)"
    and cfg: "config this1 = config this2"
  shows "\<exists>f. fst (calculateFeatures (reset this1) now1 done pose) = Success f done
     \<and> fst (calculateFeatures (reset this2) now2 done pose) = Success f done
     \<and> velocity f = \<lparr>vel_bodyLineAngle = 0, vel_hipHeight = 0, vel_shoulderHeight = 0\<rparr>
     \<and> calculateJointAngles (keypoints pose) = Some (angles f)
     \<and> calculateBodyLineStraightness (keypoints pose)
          = Some \<lparr>bl_angle = bodyLineAngle f, bl_confidence = bodyLineConfidence f\<rparr>
     \<and> previousFeatures (snd (calculateFeatures (reset this1) now1 done pose)) = Some f"
proof -
  from buildFeatures_total [OF wt, of "reset this1" now1] obtain f
    where f: "buildFeatures (reset this1) now1 pose = Some f" by blast
  have none: "previousFeatures (reset e) = None" for e
    by (simp add: reset_def)
  have "calculateVelocities (reset this2) now2 = calculateVelocities (reset this1) now1"
    by (intro ext) (simp add: calculateVelocities_def none)
  moreover have "calculateStability (reset this2) = calculateStability (reset this1)"
    by (intro ext) (simp add: calculateStability_def reset_def cfg)
  ultimately have f2: "buildFeatures (reset this2) now2 pose = Some f"
    using f by (simp add: buildFeatures_def)
  have r1: "calculateFeatures (reset this1) now1 done pose
      = (Success f done, (reset this1)\<lparr>previousFeatures := Some f\<rparr>)"
    by (simp add: calculateFeatures_def tryCalculate_plain [OF f] none)
  have r2: "calculateFeatures (reset this2) now2 done pose
      = (Success f done, (reset this2)\<lparr>previousFeatures := Some f\<rparr>)"
    by (simp add: calculateFeatures_def tryCalculate_plain [OF f2] none)
  have v: "velocity f = \<lparr>vel_bodyLineAngle = 0, vel_hipHeight = 0, vel_shoulderHeight = 0\<rparr>"
    unfolding buildFeatures_SomeD(4) [OF f] by (simp add: calculateVelocities_def none)
  show ?thesis
    apply (rule exI [of _ f])
    apply (intro conjI)
    subgoal by (simp add: r1)
    subgoal by (simp add: r2)
    subgoal by (rule v)
    subgoal by (rule buildFeatures_SomeD(1) [OF f])
    subgoal by (rule buildFeatures_SomeD(2) [OF f])
    subgoal by (simp add: r1)
    done
qed

theorem reset_forgets_witness:
  "wellTyped (keypoints poseKneeHidden)
   \<and> config engineAfterFirstFrame = config (constructor None)
   \<and> (\<exists>f. fst (calculateFeatures (reset engineAfterFirstFrame) 1100 1100 poseKneeHidden)
              = Success f 1100
         \<and> fst (calculateFeatures (reset (constructor None)) 5000 1100 poseKneeHidden)
              = Success f 1100
         \<and> velocity f = \<lparr>vel_bodyLineAngle = 0, vel_hipHeight = 0, vel_shoulderHeight = 0\<rparr>
         \<and> leftHip (angles f) = 0)"
proof -
  have wt: "wellTyped (keypoints poseKneeHidden)"
    by (simp add: poseKneeHidden_def wellTyped_mkPose)
  have cfg: "config engineAfterFirstFrame = config (constructor None)"
    by (simp add: engineAfterFirstFrame_eq constructor_None)
  from reset_forgets [OF wt cfg, of 1100 1100 5000] obtain f where
    a: "fst (calculateFeatures (reset engineAfterFirstFrame) 1100 1100 poseKneeHidden)
              = Success f 1100"
    and b: "fst (calculateFeatures (reset (constructor None)) 5000 1100 poseKneeHidden)
              = Success f 1100"
    and v: "velocity f = \<lparr>vel_bodyLineAngle = 0, vel_hipHeight = 0, vel_shoulderHeight = 0\<rparr>"
    and j: "calculateJointAngles (keypoints poseKneeHidden) = Some (angles f)"
    by blast
  have "Some (angles f) = Some \<lparr>leftHip = 0, rightHip = 0, leftKnee = 0, rightKnee = 0,
          leftShoulder = 0, rightShoulder = 0, leftElbow = 0, rightElbow = 0, neck = 0\<rparr>"
    by (rule trans [OF j [symmetric] poseKneeHidden_angles])
  then have "leftHip (angles f) = 0" by simp
  with wt cfg a b v show ?thesis by blast
qed

section \<open>Visibility\<close>

text \<open>
  Claim C9, as the specification states it, fails on the code. With every keypoint at
  confidence exactly 0.6, no keypoint is above 0.6, so the specification's overall score
  is 0; the returned Features has \<open>overall = 1\<close>, since the code counts a keypoint with
  confidence 0.6 as visible.
\<close>

theorem threshold_confidence_counts_as_visible:
  "fst (calculateFeatures (constructor None) 1000 1000 poseAtThreshold)
     = Success featuresAtThreshold 1000
   \<and> overall (visibility featuresAtThreshold) = 1
   \<and> spec_overall (keypoints poseAtThreshold) = 0"
  by (simp add: featuresAtThreshold_eq)
    (simp add: featuresAtThreshold_def spec_overall_def poseAtThreshold_def mkPose_def
      kpt_def confidenceOrZero_def)

text \<open>
  Claim C9, amended. The overall visibility score of the returned Features is the
  number of named keypoints whose confidence is 0.6 or more, over the number of named
  keypoints (21). The critical-points scores it exposes are the mean of the left and
  the right confidence of the shoulders, of the hips and of the ankles.
\<close>

theorem overall_counts_visible:
  assumes wt: "wellTyped (keypoints pose)"
  shows "\<exists>f this'. calculateFeatures this now done pose = (Success f done, this')
     \<and> overall (visibility f)
         = real (card {n. \<exists>kp. keypoints pose n = Some kp \<and> confidence kp \<ge> 6/10})
             / real (card (UNIV :: KeypointName set))
     \<and> shoulders (criticalPoints (visibility f))
         = (confidenceOrZero (keypoints pose) left_shoulder
            + confidenceOrZero (keypoints pose) right_shoulder) / 2
     \<and> hips (criticalPoints (visibility f))
         = (confidenceOrZero (keypoints pose) left_hip
            + confidenceOrZero (keypoints pose) right_hip) / 2
     \<and> ankles (criticalPoints (visibility f))
         = (confidenceOrZero (keypoints pose) left_ankle
            + confidenceOrZero (keypoints pose) right_ankle) / 2"
proof -
  let ?ks = "keypoints pose"
  from calculateFeatures_result [OF wt, of this now "done"] obtain raw f where
    raw: "buildFeatures this now pose = Some raw"
    and res: "calculateFeatures this now done pose
           = (Success f done, this\<lparr>previousFeatures := Some f\<rparr>)"
    and vis: "visibility f = visibility raw"
    by blast
  have v: "calculateVisibility ?ks = Some (visibility f)"
    unfolding vis by (rule buildFeatures_SomeD(6) [OF raw])
  have set_eq: "{n. \<exists>kp. ?ks n = Some kp \<and> confidence kp \<ge> 6/10} = {n. isVisibleName ?ks n}"
    by (auto simp: isVisibleName_def split: option.splits)
  have ov: "overall (visibility f)
      = real (card {n. \<exists>kp. ?ks n = Some kp \<and> confidence kp \<ge> 6/10})
          / real (card (UNIV :: KeypointName set))"
    unfolding set_eq card_KeypointName calculateVisibility_overall(1) [OF wt v] card_visible
    by simp
  note crit = calculateVisibility_critical [OF v]
  show ?thesis
    apply (rule exI [of _ f])
    apply (rule exI [of _ "this\<lparr>previousFeatures := Some f\<rparr>"])
    apply (intro conjI)
    subgoal by (rule res)
    subgoal by (rule ov)
    subgoal by (simp add: crit)
    subgoal by (simp add: crit)
    subgoal by (simp add: crit)
    done
qed

theorem overall_counts_visible_witness:
  "wellTyped (keypoints poseKneeHidden)
   \<and> card {n. \<exists>kp. keypoints poseKneeHidden n = Some kp \<and> confidence kp \<ge> 6/10} = 20
   \<and> (\<exists>f this'. calculateFeatures (constructor None) 1100 1100 poseKneeHidden
                    = (Success f 1100, this')
         \<and> overall (visibility f) = 20/21
         \<and> shoulders (criticalPoints (visibility f)) = 1)"
proof -
  have wt: "wellTyped (keypoints poseKneeHidden)"
    by (simp add: poseKneeHidden_def wellTyped_mkPose)
  have "{n. \<exists>kp. keypoints poseKneeHidden n = Some kp \<and> confidence kp \<ge> 6/10}
      = {n. isVisibleName (keypoints poseKneeHidden) n}"
    by (auto simp: isVisibleName_def split: option.splits)
  then have c: "card {n. \<exists>kp. keypoints poseKneeHidden n = Some kp \<and> confidence kp \<ge> 6/10}
      = 20"
    using card_visible [of "isVisibleName (keypoints poseKneeHidden)"]
    by (simp add: poseKneeHidden_vis allKeypointNames_def)
  have s: "confidenceOrZero (keypoints poseKneeHidden) left_shoulder = 1"
    "confidenceOrZero (keypoints poseKneeHidden) right_shoulder = 1"
    by (simp_all add: confidenceOrZero_def poseKneeHidden_def mkPose_def kpt_def)
  from overall_counts_visible [OF wt, of "constructor None" 1100 1100] obtain f this' where
    r: "calculateFeatures (constructor None) 1100 1100 poseKneeHidden = (Success f 1100, this')"
    and o: "overall (visibility f)
      = real (card {n. \<exists>kp. keypoints poseKneeHidden n = Some kp \<and> confidence kp \<ge> 6/10})
          / real (card (UNIV :: KeypointName set))"
    and sh: "shoulders (criticalPoints (visibility f))
         = (confidenceOrZero (keypoints poseKneeHidden) left_shoulder
            + confidenceOrZero (keypoints poseKneeHidden) right_shoulder) / 2"
    by blast
  have "overall (visibility f) = 20/21" unfolding o c card_KeypointName by simp
  moreover have "shoulders (criticalPoints (visibility f)) = 1" unfolding sh s by simp
  ultimately have "\<exists>f this'. calculateFeatures (constructor None) 1100 1100 poseKneeHidden
                    = (Success f 1100, this')
         \<and> overall (visibility f) = 20/21
         \<and> shoulders (criticalPoints (visibility f)) = 1"
    using r by blast
  with wt c show ?thesis by blast
qed

section \<open>Reference positions\<close>

text \<open>
  Claim C10. In the returned Features, hip, shoulder and head height are the mean of the
  y-coordinates of those of the two keypoints (hips, shoulders, ears) whose confidence is
  0.6 or more: both, one, or none, and 0 when none; each ankle height is the ankle's
  y-coordinate when its confidence is 0.6 or more and 0 otherwise. The coordinates of a
  keypoint below 0.6 do not enter any position. Positions are not smoothed.
\<close>

theorem positions_use_visible_keypoints_only:
  assumes wt: "wellTyped (keypoints pose)"
    and "keypoints pose left_hip = Some lh" "keypoints pose right_hip = Some rh"
    and "keypoints pose left_shoulder = Some ls" "keypoints pose right_shoulder = Some rs"
    and "keypoints pose left_ankle = Some la" "keypoints pose right_ankle = Some ra"
    and "keypoints pose left_ear = Some le" "keypoints pose right_ear = Some re"
  shows "\<exists>f this'. calculateFeatures this now done pose = (Success f done, this')
    \<and> calculateBodyPositions (keypoints pose) = Some (positions f)
    \<and> positions f =
     \<lparr>hipHeight =
            (if confidence lh \<ge> 6/10 \<and> confidence rh \<ge> 6/10 then (kp_y lh + kp_y rh) / 2
             else if confidence lh \<ge> 6/10 then kp_y lh
             else if confidence rh \<ge> 6/10 then kp_y rh
             else 0),
          shoulderHeight =
            (if confidence ls \<ge> 6/10 \<and> confidence rs \<ge> 6/10 then (kp_y ls + kp_y rs) / 2
             else if confidence ls \<ge> 6/10 then kp_y ls
             else if confidence rs \<ge> 6/10 then kp_y rs
             else 0),
          headHeight =
            (if confidence le \<ge> 6/10 \<and> confidence re \<ge> 6/10 then (kp_y le + kp_y re) / 2
             else if confidence le \<ge> 6/10 then kp_y le
             else if confidence re \<ge> 6/10 then kp_y re
             else 0),
          leftAnkleHeight = (if confidence la \<ge> 6/10 then kp_y la else 0),
          rightAnkleHeight = (if confidence ra \<ge> 6/10 then kp_y ra else 0)\<rparr>"
proof -
  from calculateFeatures_result [OF wt, of this now "done"] obtain raw f where
    raw: "buildFeatures this now pose = Some raw"
    and res: "calculateFeatures this now done pose
           = (Success f done, this\<lparr>previousFeatures := Some f\<rparr>)"
    and pos: "positions f = positions raw"
    by blast
  have p: "calculateBodyPositions (keypoints pose) = Some (positions f)"
    unfolding pos by (rule buildFeatures_SomeD(3) [OF raw])
  have formula: "calculateBodyPositions (keypoints pose) =
    Some \<lparr>hipHeight =
            (if confidence lh \<ge> 6/10 \<and> confidence rh \<ge> 6/10 then (kp_y lh + kp_y rh) / 2
             else if confidence lh \<ge> 6/10 then kp_y lh
             else if confidence rh \<ge> 6/10 then kp_y rh
             else 0),
          shoulderHeight =
            (if confidence ls \<ge> 6/10 \<and> confidence rs \<ge> 6/10 then (kp_y ls + kp_y rs) / 2
             else if confidence ls \<ge> 6/10 then kp_y ls
             else if confidence rs \<ge> 6/10 then kp_y rs
             else 0),
          headHeight =
            (if confidence le \<ge> 6/10 \<and> confidence re \<ge> 6/10 then (kp_y le + kp_y re) / 2
             else if confidence le \<ge> 6/10 then kp_y le
             else if confidence re \<ge> 6/10 then kp_y re
             else 0),
          leftAnkleHeight = (if confidence la \<ge> 6/10 then kp_y la else 0),
          rightAnkleHeight = (if confidence ra \<ge> 6/10 then kp_y ra else 0)\<rparr>"
    unfolding calculateBodyPositions_def assms(2-9) averageY2 by (simp add: Let_def)
  have eq: "positions f = the (calculateBodyPositions (keypoints pose))"
    by (simp add: p)
  show ?thesis
    apply (rule exI [of _ f])
    apply (rule exI [of _ "this\<lparr>previousFeatures := Some f\<rparr>"])
    apply (intro conjI)
    subgoal by (rule res)
    subgoal by (rule p)
    subgoal unfolding eq formula by simp
    done
qed

theorem positions_use_visible_keypoints_only_witness:
  "wellTyped (keypoints poseRightAngle)
   \<and> (\<exists>f this'. calculateFeatures (constructor None) 1000 1000 poseRightAngle
                    = (Success f 1000, this')
         \<and> positions f = \<lparr>hipHeight = 1/2, shoulderHeight = 0, headHeight = 0,
                            leftAnkleHeight = 0, rightAnkleHeight = 0\<rparr>)
   \<and> wellTyped (keypoints poseAllHidden)
   \<and> (\<exists>f this'. calculateFeatures engineAfterFirstFrame 1100 1100 poseAllHidden
                    = (Success f 1100, this')
         \<and> positions f = \<lparr>hipHeight = 0, shoulderHeight = 0, headHeight = 0,
                            leftAnkleHeight = 0, rightAnkleHeight = 0\<rparr>)"
proof -
  have wt1: "wellTyped (keypoints poseRightAngle)"
    by (simp add: poseRightAngle_def wellTyped_mkPose)
  have wt2: "wellTyped (keypoints poseAllHidden)"
    by (simp add: poseAllHidden_def wellTyped_mkPose)
  have k1: "keypoints poseRightAngle left_hip = Some (kpt 0 1 1)"
    "keypoints poseRightAngle right_hip = Some (kpt 0 0 1)"
    "keypoints poseRightAngle left_shoulder = Some (kpt 0 0 1)"
    "keypoints poseRightAngle right_shoulder = Some (kpt 0 0 1)"
    "keypoints poseRightAngle left_ankle = Some (kpt 1 0 1)"
    "keypoints poseRightAngle right_ankle = Some (kpt 0 0 1)"
    "keypoints poseRightAngle left_ear = Some (kpt 0 0 1)"
    "keypoints poseRightAngle right_ear = Some (kpt 0 0 1)"
    by (simp_all add: poseRightAngle_def mkPose_def)
  let ?h = "\<lparr>kp_x = 0, kp_y = 0, confidence = 0, kp_visibility = Some not_visible\<rparr>"
  have k2: "keypoints poseAllHidden n = Some ?h" for n
    by (simp add: poseAllHidden_def mkPose_def)
  have a: "\<exists>f this'. calculateFeatures (constructor None) 1000 1000 poseRightAngle
                    = (Success f 1000, this')
         \<and> positions f = \<lparr>hipHeight = 1/2, shoulderHeight = 0, headHeight = 0,
                            leftAnkleHeight = 0, rightAnkleHeight = 0\<rparr>"
    using positions_use_visible_keypoints_only [OF wt1 k1, of "constructor None" 1000 1000]
    by (auto simp: kpt_def)
  have b: "\<exists>f this'. calculateFeatures engineAfterFirstFrame 1100 1100 poseAllHidden
                    = (Success f 1100, this')
         \<and> positions f = \<lparr>hipHeight = 0, shoulderHeight = 0, headHeight = 0,
                            leftAnkleHeight = 0, rightAnkleHeight = 0\<rparr>"
    using positions_use_visible_keypoints_only [OF wt2 k2 k2 k2 k2 k2 k2 k2 k2,
        of engineAfterFirstFrame 1100 1100]
    by auto
  from wt1 a wt2 b show ?thesis by blast
qed

end
